theory Spec2Isabelle
  imports Main "HOL-Library.Sublist"
begin

section \<open>Data model of the orchestration service\<close>

text \<open>
  The embedding follows \<^verbatim>\<open>packages/server/src/mL/index.ts\<close>. The two enumerations
  keep the order of the source, so that the numeric value of a member is its position.
\<close>

datatype TrainerState =
    NO_DOCKER_INSTALLED
  | SCANNING_FOR_DOCKER
  | SCANNING_PROJECTS
  | DATASET_PULL
  | METRICS_PULL
  | TRAINER_PULL
  | EXPORT_PULL
  | TEST_PULL
  | READY

datatype TrainingStatus = NOT_TRAINING | PREPARING | TRAINING | PAUSED

text \<open>The numeric value TypeScript gives each member of \<^verbatim>\<open>enum TrainerState\<close>.\<close>

fun TrainerState_value :: "TrainerState \<Rightarrow> nat" where
  "TrainerState_value NO_DOCKER_INSTALLED = 0"
| "TrainerState_value SCANNING_FOR_DOCKER = 1"
| "TrainerState_value SCANNING_PROJECTS = 2"
| "TrainerState_value DATASET_PULL = 3"
| "TrainerState_value METRICS_PULL = 4"
| "TrainerState_value TRAINER_PULL = 5"
| "TrainerState_value EXPORT_PULL = 6"
| "TrainerState_value TEST_PULL = 7"
| "TrainerState_value READY = 8"

definition DATASET_IMAGE :: string where
  "DATASET_IMAGE = ''gcperkins/wpilib-ml-dataset:latest''"

definition METRICS_IMAGE :: string where
  "METRICS_IMAGE = ''gcperkins/wpilib-ml-metrics:latest''"

definition EXPORT_IMAGE :: string where
  "EXPORT_IMAGE = ''gcperkins/wpilib-ml-tflite:latest''"

definition TRAIN_IMAGE :: string where
  "TRAIN_IMAGE = ''gcperkins/wpilib-ml-train:latest''"

definition TEST_IMAGE :: string where
  "TEST_IMAGE = ''gcperkins/wpilib-ml-test:latest''"

text \<open>
  \<^verbatim>\<open>ProjectStatus\<close>, with the three fields \<^verbatim>\<open>addStatus\<close> writes. Epoch counts are
  JavaScript numbers that only ever hold integers here.
\<close>

record ProjectStatus =
  trainingStatus :: TrainingStatus
  currentEpoch :: int
  lastEpoch :: int

text \<open>
  The fields of a project record that the service reads or writes:
  \<^verbatim>\<open>project.id\<close>, \<^verbatim>\<open>project.directory\<close>, \<^verbatim>\<open>project.hyperparameters.epochs\<close> and
  \<^verbatim>\<open>project.containerIDs.train\<close>. The handle is a string or \<^verbatim>\<open>null\<close>.
\<close>

record Hyperparameters =
  epochs :: int

record ContainerIDs =
  train :: "string option"

record ProjectData =
  project_id :: string
  directory :: string
  hyperparameters :: Hyperparameters
  containerIDs :: ContainerIDs

text \<open>The argument of \<^verbatim>\<open>start\<close>; only its \<^verbatim>\<open>id\<close> is read.\<close>

record Project =
  ref_id :: string

text \<open>
  An \<^verbatim>\<open>async\<close> method ends in a resolved or a rejected promise. A rejection is
  \<^verbatim>\<open>Promise.reject(reason)\<close> with a string, the \<^verbatim>\<open>TypeError\<close> JavaScript throws on
  reading or writing a property of \<^verbatim>\<open>undefined\<close>, the store's not-found failure,
  or whatever a collaborator rejects with.
\<close>

datatype error =
    Rejected string
  | TypeError
  | NotFound string
  | Failure string

text \<open>
  What the collaborators act on: the project store, and everything else outside the
  service (the container runtime, the file system), which stays opaque.
\<close>

record 'x world =
  db :: "ProjectData list"
  runtime :: 'x

text \<open>
  Every call to a collaborator and every write to a field of the service is recorded,
  in program order, in a log. A call is logged with the error it failed with, if any.
\<close>

datatype call =
    TestDaemon
  | Pull string
  | KillContainer string
  | PauseContainer string
  | ResumeContainer string
  | RetrieveDatabase
  | RetrieveProject string
  | PushProject ProjectData
  | TrainerWriteParameterFile string
  | HandleOldData string
  | MoveDataToMount string
  | ExtractDataset string
  | TrainModel string
  | TrainerUpdateCheckpoints string
  | LocateCheckpoint string int
  | CreateExport string string
  | CreateDestinationDirectory
  | UpdateCheckpointStatus string int bool
  | ExporterWriteParameterFile string int
  | ExportCheckpoint string
  | SaveExport string int
  | CreateTest string string string string
  | MountModel string
  | MountVideo string
  | TesterWriteParameterFile string string string
  | TestModel string
  | SaveOutputVid string
  | SaveTest string

datatype event =
    Call call "error option"
  | SetTrainerState TrainerState
  | AddStatus string
  | SetTrainingStatus string TrainingStatus
  | SetCurrentEpoch string int
  | SetLastEpoch string int

text \<open>
  The status table is a plain object, \<^verbatim>\<open>this.status = {}\<close>, so a key that is not its own
  is looked up in \<^verbatim>\<open>Object.prototype\<close>. The objects found there can be given fields too:
  the fields the service writes to a member function of \<^verbatim>\<open>Object.prototype\<close> or to
  \<^verbatim>\<open>Object.prototype\<close> itself are part of the state.
\<close>

record Expando =
  x_trainingStatus :: "TrainingStatus option"
  x_currentEpoch :: "int option"
  x_lastEpoch :: "int option"

text \<open>
  The service object (\<^verbatim>\<open>trainer_state\<close>, \<^verbatim>\<open>status\<close>), the fields written to the member
  functions of \<^verbatim>\<open>Object.prototype\<close> and to \<^verbatim>\<open>Object.prototype\<close> itself, the world the
  service runs in, and the log.
\<close>

record 'x config =
  trainer_state :: TrainerState
  status :: "string \<rightharpoonup> ProjectStatus"
  members :: "string \<Rightarrow> Expando"
  object_prototype :: Expando
  world :: "'x world"
  trace :: "event list"

type_synonym ('a, 'x) prog = "'x config \<Rightarrow> (error + 'a) \<times> 'x config"

type_synonym ('a, 'x) step = "'x world \<Rightarrow> (error + 'a) \<times> 'x world"

type_synonym ('a, 'x) rstep = "'x \<Rightarrow> (error + 'a) \<times> 'x"

section \<open>Collaborators\<close>

text \<open>
  \<^verbatim>\<open>Docker\<close>, \<^verbatim>\<open>Trainer\<close>, \<^verbatim>\<open>Exporter\<close> and \<^verbatim>\<open>Tester\<close> are imported by the service; their
  sources are not at hand, so they are parameters of the model. Each method is a
  function that may fail and may change what it acts on, also when it fails. None of
  them holds a reference to the service object, so none can reach \<^verbatim>\<open>trainer_state\<close> or
  the status table.
\<close>

text \<open>
  Modelled from the spec: \<^verbatim>\<open>Docker\<close>, the container runtime adapter, is a leaf dependency
  with a narrow interface taking an image reference or a container handle
  (\<^verbatim>\<open>testDaemon\<close>, \<^verbatim>\<open>pull\<close>, \<^verbatim>\<open>killContainer\<close>, \<^verbatim>\<open>pauseContainer\<close>, \<^verbatim>\<open>resumeContainer\<close>); it
  does not depend on the project store. Its methods therefore act on the runtime only.
\<close>

record 'x Docker =
  Docker_testDaemon :: "(bool, 'x) rstep"
  Docker_pull :: "string \<Rightarrow> (unit, 'x) rstep"
  Docker_killContainer :: "string \<Rightarrow> (unit, 'x) rstep"
  Docker_pauseContainer :: "string \<Rightarrow> (unit, 'x) rstep"
  Docker_resumeContainer :: "string \<Rightarrow> (unit, 'x) rstep"

text \<open>
  The stage executors depend on both the runtime and the project store, so their steps
  act on the whole world. \<^verbatim>\<open>Trainer.updateCheckpoints\<close> reports the current step, or
  nothing; an \<^verbatim>\<open>Export\<close> and a \<^verbatim>\<open>Test\<close> record are only handed from one step to the
  next, so their types stay open.
\<close>

record 'x Trainer =
  Trainer_writeParameterFile :: "string \<Rightarrow> (unit, 'x) step"
  Trainer_handleOldData :: "string \<Rightarrow> (unit, 'x) step"
  Trainer_moveDataToMount :: "string \<Rightarrow> (unit, 'x) step"
  Trainer_extractDataset :: "string \<Rightarrow> (unit, 'x) step"
  Trainer_trainModel :: "string \<Rightarrow> (unit, 'x) step"
  Trainer_updateCheckpoints :: "string \<Rightarrow> (int option, 'x) step"

record ('x, 'e) Exporter =
  Exporter_locateCheckpoint :: "string \<Rightarrow> int \<Rightarrow> (unit, 'x) step"
  Exporter_createExport :: "string \<Rightarrow> string \<Rightarrow> ('e, 'x) step"
  Exporter_createDestinationDirectory :: "'e \<Rightarrow> (unit, 'x) step"
  Exporter_updateCheckpointStatus :: "string \<Rightarrow> int \<Rightarrow> bool \<Rightarrow> (unit, 'x) step"
  Exporter_writeParameterFile :: "string \<Rightarrow> int \<Rightarrow> 'e \<Rightarrow> (unit, 'x) step"
  Exporter_exportCheckpoint :: "string \<Rightarrow> (unit, 'x) step"
  Exporter_saveExport :: "string \<Rightarrow> 'e \<Rightarrow> int \<Rightarrow> (unit, 'x) step"

record ('x, 't) Tester =
  Tester_createTest :: "string \<Rightarrow> string \<Rightarrow> string \<Rightarrow> string \<Rightarrow> ('t, 'x) step"
  Tester_mountModel :: "'t \<Rightarrow> string \<Rightarrow> (string, 'x) step"
  Tester_mountVideo :: "'t \<Rightarrow> string \<Rightarrow> (string, 'x) step"
  Tester_writeParameterFile :: "string \<Rightarrow> string \<Rightarrow> string \<Rightarrow> (unit, 'x) step"
  Tester_testModel :: "string \<Rightarrow> (unit, 'x) step"
  Tester_saveOutputVid :: "'t \<Rightarrow> string \<Rightarrow> (unit, 'x) step"
  Tester_saveTest :: "'t \<Rightarrow> string \<Rightarrow> (unit, 'x) step"

section \<open>Sequencing\<close>

text \<open>\<^verbatim>\<open>return v\<close> of an \<^verbatim>\<open>async\<close> method, and a rejection.\<close>

definition resolve :: "'a \<Rightarrow> ('a, 'x) prog" where
  "resolve v c = (Inr v, c)"

definition reject :: "error \<Rightarrow> ('a, 'x) prog" where
  "reject e c = (Inl e, c)"

text \<open>
  \<^verbatim>\<open>const v = await m; rest\<close>: when \<open>m\<close> rejects, the method rejects with the same
  error and the rest does not run; the state \<open>m\<close> left behind stays.
\<close>

definition await :: "('a, 'x) prog \<Rightarrow> ('a \<Rightarrow> ('b, 'x) prog) \<Rightarrow> ('b, 'x) prog" where
  "await m rest c =
     (case m c of
        (Inl e, c') \<Rightarrow> (Inl e, c')
      | (Inr v, c') \<Rightarrow> rest v c')"

text \<open>
  A call whose promise is not awaited: the caller goes on whatever it returns. The call
  itself is made at once.
\<close>

definition detached :: "('a, 'x) prog \<Rightarrow> (unit, 'x) prog" where
  "detached m c = (Inr (), snd (m c))"

definition outcome :: "error + 'a \<Rightarrow> error option" where
  "outcome r = (case r of Inl e \<Rightarrow> Some e | Inr _ \<Rightarrow> None)"

text \<open>A call to a stage executor, and a call to the container runtime.\<close>

definition invoke :: "call \<Rightarrow> ('a, 'x) step \<Rightarrow> ('a, 'x) prog" where
  "invoke k f c =
     (case f (world c) of
        (r, w') \<Rightarrow> (r, c\<lparr>world := w', trace := trace c @ [Call k (outcome r)]\<rparr>))"

definition invoke_runtime :: "call \<Rightarrow> ('a, 'x) rstep \<Rightarrow> ('a, 'x) prog" where
  "invoke_runtime k f c =
     (case f (runtime (world c)) of
        (r, x') \<Rightarrow>
          (r, c\<lparr>world := (world c)\<lparr>runtime := x'\<rparr>,
                 trace := trace c @ [Call k (outcome r)]\<rparr>))"

section \<open>The project store\<close>

text \<open>
  Modelled from the spec: \<^verbatim>\<open>PseudoDatabase\<close>, the project store, is not part of the
  sources at hand. It holds project records, each with the identity \<^verbatim>\<open>id\<close>. Looking a
  project up by id finds the record with that id, if there is one.
\<close>

definition lookup_project :: "string \<Rightarrow> ProjectData list \<Rightarrow> ProjectData option" where
  "lookup_project i ps = find (\<lambda>p. project_id p = i) ps"

text \<open>
  Modelled from the spec: persisting a record replaces the stored record with the same
  id, or adds the record when there is none.
\<close>

fun store_project :: "ProjectData \<Rightarrow> ProjectData list \<Rightarrow> ProjectData list" where
  "store_project p [] = [p]"
| "store_project p (q # qs) =
     (if project_id q = project_id p then p # qs else q # store_project p qs)"

text \<open>
  Modelled from the spec: \<^verbatim>\<open>PseudoDatabase.retrieveProject(id)\<close> returns a fresh copy of
  the record with that id and fails with not-found when there is none.
\<close>

definition retrieveProject :: "string \<Rightarrow> (ProjectData, 'x) prog" where
  "retrieveProject i c =
     (case lookup_project i (db (world c)) of
        None \<Rightarrow>
          (Inl (NotFound i),
           c\<lparr>trace := trace c @ [Call (RetrieveProject i) (Some (NotFound i))]\<rparr>)
      | Some p \<Rightarrow>
          (Inr p, c\<lparr>trace := trace c @ [Call (RetrieveProject i) None]\<rparr>))"

text \<open>
  Modelled from the spec: \<^verbatim>\<open>PseudoDatabase.retrieveDatabase()\<close> returns all project
  records.
\<close>

definition retrieveDatabase :: "(ProjectData list, 'x) prog" where
  "retrieveDatabase c =
     (Inr (db (world c)), c\<lparr>trace := trace c @ [Call RetrieveDatabase None]\<rparr>)"

text \<open>
  Modelled from the spec: \<^verbatim>\<open>PseudoDatabase.pushProject(project)\<close> persists the record.
  The service does not await it.
\<close>

definition pushProject :: "ProjectData \<Rightarrow> (unit, 'x) prog" where
  "pushProject p c =
     (Inr (),
      c\<lparr>world := (world c)\<lparr>db := store_project p (db (world c))\<rparr>,
        trace := trace c @ [Call (PushProject p) None]\<rparr>)"

section \<open>The status table\<close>

text \<open>
  The member functions of \<^verbatim>\<open>Object.prototype\<close>, which every plain object inherits.
\<close>

definition Object_prototype_functions :: "string list" where
  "Object_prototype_functions =
     [''constructor'', ''__defineGetter__'', ''__defineSetter__'', ''hasOwnProperty'',
      ''__lookupGetter__'', ''__lookupSetter__'', ''isPrototypeOf'',
      ''propertyIsEnumerable'', ''toString'', ''valueOf'', ''toLocaleString'']"

text \<open>
  What \<^verbatim>\<open>this.status[id]\<close> evaluates to: a status record; or, for an id that is not a key
  of the table, what the prototype chain gives: a member function of
  \<^verbatim>\<open>Object.prototype\<close>, \<^verbatim>\<open>Object.prototype\<close> itself (under \<^verbatim>\<open>__proto__\<close>), a number (a
  status field of the prototype), or \<^verbatim>\<open>undefined\<close>.
\<close>

datatype slot = Missing | Record ProjectStatus | Member string | Prototype | Number

text \<open>
  An assignment \<^verbatim>\<open>this.status["__proto__"] = record\<close> makes the record the prototype of
  the table instead of a key, and \<^verbatim>\<open>this.status["__proto__"]\<close> then reads that record:
  the table holds it under \<^verbatim>\<open>__proto__\<close> like any other record. Its three fields are
  numbers that every other lookup in the table inherits; so is a status field written to
  \<^verbatim>\<open>Object.prototype\<close>.
\<close>

definition inherited_number :: "'x config \<Rightarrow> string \<Rightarrow> bool" where
  "inherited_number c i =
     ((i = ''trainingStatus'' \<and>
         (status c ''__proto__'' \<noteq> None \<or> x_trainingStatus (object_prototype c) \<noteq> None)) \<or>
      (i = ''currentEpoch'' \<and>
         (status c ''__proto__'' \<noteq> None \<or> x_currentEpoch (object_prototype c) \<noteq> None)) \<or>
      (i = ''lastEpoch'' \<and>
         (status c ''__proto__'' \<noteq> None \<or> x_lastEpoch (object_prototype c) \<noteq> None)))"

definition status_lookup :: "'x config \<Rightarrow> string \<Rightarrow> slot" where
  "status_lookup c i =
     (case status c i of
        Some r \<Rightarrow> Record r
      | None \<Rightarrow>
          if i \<in> set Object_prototype_functions then Member i
          else if i = ''__proto__'' then Prototype
          else if inherited_number c i then Number
          else Missing)"

text \<open>
  \<^verbatim>\<open>this.status[id].trainingStatus\<close>, read: it throws on \<^verbatim>\<open>undefined\<close>; a record has the
  field; a function looks it up in itself and then, like a number, in
  \<^verbatim>\<open>Object.prototype\<close>, and may find nothing (\<^verbatim>\<open>undefined\<close>).
\<close>

definition read_trainingStatus :: "string \<Rightarrow> (TrainingStatus option, 'x) prog" where
  "read_trainingStatus i c =
     (case status_lookup c i of
        Missing \<Rightarrow> (Inl TypeError, c)
      | Record st \<Rightarrow> (Inr (Some (trainingStatus st)), c)
      | Member m \<Rightarrow>
          (Inr (case x_trainingStatus (members c m) of
                  Some s \<Rightarrow> Some s
                | None \<Rightarrow> x_trainingStatus (object_prototype c)), c)
      | Prototype \<Rightarrow> (Inr (x_trainingStatus (object_prototype c)), c)
      | Number \<Rightarrow> (Inr (x_trainingStatus (object_prototype c)), c))"

definition addStatus :: "ProjectData \<Rightarrow> 'x config \<Rightarrow> 'x config" where
  "addStatus project c =
     c\<lparr>status := (status c)(project_id project \<mapsto>
          \<lparr>trainingStatus = NOT_TRAINING,
           currentEpoch = 0,
           lastEpoch = epochs (hyperparameters project)\<rparr>),
       trace := trace c @ [AddStatus (project_id project)]\<rparr>"

text \<open>
  \<^verbatim>\<open>this.status[id].field = value\<close>: it throws on \<^verbatim>\<open>undefined\<close> and, the module being
  strict code, on a number; on a record, on a member function and on
  \<^verbatim>\<open>Object.prototype\<close> it sets the field of that object.
\<close>

definition updateState :: "string \<Rightarrow> TrainingStatus \<Rightarrow> (unit, 'x) prog" where
  "updateState i newState c =
     (case status_lookup c i of
        Missing \<Rightarrow> (Inl TypeError, c)
      | Number \<Rightarrow> (Inl TypeError, c)
      | Record st \<Rightarrow>
          (Inr (),
           c\<lparr>status := (status c)(i \<mapsto> st\<lparr>trainingStatus := newState\<rparr>),
             trace := trace c @ [SetTrainingStatus i newState]\<rparr>)
      | Member m \<Rightarrow>
          (Inr (),
           c\<lparr>members := (members c)(m := (members c m)\<lparr>x_trainingStatus := Some newState\<rparr>),
             trace := trace c @ [SetTrainingStatus i newState]\<rparr>)
      | Prototype \<Rightarrow>
          (Inr (),
           c\<lparr>object_prototype := (object_prototype c)\<lparr>x_trainingStatus := Some newState\<rparr>,
             trace := trace c @ [SetTrainingStatus i newState]\<rparr>))"

definition updateStep :: "string \<Rightarrow> int \<Rightarrow> (unit, 'x) prog" where
  "updateStep i newStep c =
     (case status_lookup c i of
        Missing \<Rightarrow> (Inl TypeError, c)
      | Number \<Rightarrow> (Inl TypeError, c)
      | Record st \<Rightarrow>
          (Inr (),
           c\<lparr>status := (status c)(i \<mapsto> st\<lparr>currentEpoch := newStep\<rparr>),
             trace := trace c @ [SetCurrentEpoch i newStep]\<rparr>)
      | Member m \<Rightarrow>
          (Inr (),
           c\<lparr>members := (members c)(m := (members c m)\<lparr>x_currentEpoch := Some newStep\<rparr>),
             trace := trace c @ [SetCurrentEpoch i newStep]\<rparr>)
      | Prototype \<Rightarrow>
          (Inr (),
           c\<lparr>object_prototype := (object_prototype c)\<lparr>x_currentEpoch := Some newStep\<rparr>,
             trace := trace c @ [SetCurrentEpoch i newStep]\<rparr>))"

definition updateLastStep :: "string \<Rightarrow> int \<Rightarrow> (unit, 'x) prog" where
  "updateLastStep i newLast c =
     (case status_lookup c i of
        Missing \<Rightarrow> (Inl TypeError, c)
      | Number \<Rightarrow> (Inl TypeError, c)
      | Record st \<Rightarrow>
          (Inr (),
           c\<lparr>status := (status c)(i \<mapsto> st\<lparr>lastEpoch := newLast\<rparr>),
             trace := trace c @ [SetLastEpoch i newLast]\<rparr>)
      | Member m \<Rightarrow>
          (Inr (),
           c\<lparr>members := (members c)(m := (members c m)\<lparr>x_lastEpoch := Some newLast\<rparr>),
             trace := trace c @ [SetLastEpoch i newLast]\<rparr>)
      | Prototype \<Rightarrow>
          (Inr (),
           c\<lparr>object_prototype := (object_prototype c)\<lparr>x_lastEpoch := Some newLast\<rparr>,
             trace := trace c @ [SetLastEpoch i newLast]\<rparr>))"

definition set_trainer_state :: "TrainerState \<Rightarrow> (unit, 'x) prog" where
  "set_trainer_state s c =
     (Inr (), c\<lparr>trainer_state := s, trace := trace c @ [SetTrainerState s]\<rparr>)"

section \<open>The service\<close>

text \<open>\<^verbatim>\<open>Object.values(database).forEach((project) => this.addStatus(project))\<close>\<close>

definition forEach_addStatus :: "ProjectData list \<Rightarrow> (unit, 'x) prog" where
  "forEach_addStatus database c = (Inr (), fold addStatus database c)"

definition prepare :: "'x Docker \<Rightarrow> (unit, 'x) prog" where
  "prepare D =
     await (invoke_runtime TestDaemon (Docker_testDaemon D)) (\<lambda>alive.
       if \<not> alive then
         await (set_trainer_state NO_DOCKER_INSTALLED) (\<lambda>_. resolve ())
       else
         await (set_trainer_state SCANNING_PROJECTS) (\<lambda>_.
         await retrieveDatabase (\<lambda>database.
         await (forEach_addStatus database) (\<lambda>_.
         await (set_trainer_state DATASET_PULL) (\<lambda>_.
         await (invoke_runtime (Pull DATASET_IMAGE) (Docker_pull D DATASET_IMAGE)) (\<lambda>_.
         await (set_trainer_state METRICS_PULL) (\<lambda>_.
         await (invoke_runtime (Pull METRICS_IMAGE) (Docker_pull D METRICS_IMAGE)) (\<lambda>_.
         await (set_trainer_state TRAINER_PULL) (\<lambda>_.
         await (invoke_runtime (Pull TRAIN_IMAGE) (Docker_pull D TRAIN_IMAGE)) (\<lambda>_.
         await (set_trainer_state EXPORT_PULL) (\<lambda>_.
         await (invoke_runtime (Pull EXPORT_IMAGE) (Docker_pull D EXPORT_IMAGE)) (\<lambda>_.
         await (set_trainer_state TEST_PULL) (\<lambda>_.
         await (invoke_runtime (Pull TEST_IMAGE) (Docker_pull D TEST_IMAGE)) (\<lambda>_.
         await (set_trainer_state READY) (\<lambda>_.
         resolve ())))))))))))))))"

text \<open>An object that has been given none of the status fields.\<close>

definition no_fields :: Expando where
  "no_fields = \<lparr>x_trainingStatus = None, x_currentEpoch = None, x_lastEpoch = None\<rparr>"

text \<open>
  The constructor: \<^verbatim>\<open>trainer_state = SCANNING_FOR_DOCKER\<close>, an empty status table, then
  \<^verbatim>\<open>prepare()\<close>. The boot sequence is run to its end.
\<close>

definition initial_config :: "'x world \<Rightarrow> 'x config" where
  "initial_config w =
     \<lparr>trainer_state = SCANNING_FOR_DOCKER,
      status = Map.empty,
      members = (\<lambda>_. no_fields),
      object_prototype = no_fields,
      world = w,
      trace = [SetTrainerState SCANNING_FOR_DOCKER]\<rparr>"

definition MLService_new :: "'x Docker \<Rightarrow> 'x world \<Rightarrow> (error + unit) \<times> 'x config" where
  "MLService_new D w = prepare D (initial_config w)"

definition start :: "'x Trainer \<Rightarrow> Project \<Rightarrow> (string, 'x) prog" where
  "start T iproject =
     await (retrieveProject (ref_id iproject)) (\<lambda>project.
     let ID = project_id project in
     await (updateLastStep ID (epochs (hyperparameters project))) (\<lambda>_.
     await (updateState ID PREPARING) (\<lambda>_.
     await (invoke (TrainerWriteParameterFile ID) (Trainer_writeParameterFile T ID)) (\<lambda>_.
     await (invoke (HandleOldData ID) (Trainer_handleOldData T ID)) (\<lambda>_.
     await (invoke (MoveDataToMount ID) (Trainer_moveDataToMount T ID)) (\<lambda>_.
     await (invoke (ExtractDataset ID) (Trainer_extractDataset T ID)) (\<lambda>_.
     await (updateState ID TRAINING) (\<lambda>_.
     await (updateStep ID 0) (\<lambda>_.
     await (invoke (TrainModel ID) (Trainer_trainModel T ID)) (\<lambda>_.
     await (invoke (TrainerUpdateCheckpoints ID) (Trainer_updateCheckpoints T ID)) (\<lambda>_.
     await (updateState ID NOT_TRAINING) (\<lambda>_.
     await (detached (pushProject
              (project\<lparr>containerIDs := (containerIDs project)\<lparr>train := None\<rparr>\<rparr>))) (\<lambda>_.
     resolve ''training complete'')))))))))))))"

definition export :: "('x, 'e) Exporter \<Rightarrow> string \<Rightarrow> int \<Rightarrow> string \<Rightarrow> (string, 'x) prog" where
  "export E i checkpointNumber name =
     await (invoke (LocateCheckpoint i checkpointNumber)
              (Exporter_locateCheckpoint E i checkpointNumber)) (\<lambda>_.
     await (invoke (CreateExport i name) (Exporter_createExport E i name)) (\<lambda>exp.
     await (invoke CreateDestinationDirectory
              (Exporter_createDestinationDirectory E exp)) (\<lambda>_.
     await (invoke (UpdateCheckpointStatus i checkpointNumber True)
              (Exporter_updateCheckpointStatus E i checkpointNumber True)) (\<lambda>_.
     await (invoke (ExporterWriteParameterFile i checkpointNumber)
              (Exporter_writeParameterFile E i checkpointNumber exp)) (\<lambda>_.
     await (invoke (ExportCheckpoint i) (Exporter_exportCheckpoint E i)) (\<lambda>_.
     await (invoke (SaveExport i checkpointNumber)
              (Exporter_saveExport E i exp checkpointNumber)) (\<lambda>_.
     await (invoke (UpdateCheckpointStatus i checkpointNumber False)
              (Exporter_updateCheckpointStatus E i checkpointNumber False)) (\<lambda>_.
     resolve ''exported''))))))))"

definition test ::
  "('x, 't) Tester \<Rightarrow> string \<Rightarrow> string \<Rightarrow> string \<Rightarrow> string \<Rightarrow> (string, 'x) prog" where
  "test Te testName projectID exportID videoID =
     await (invoke (CreateTest testName projectID exportID videoID)
              (Tester_createTest Te testName projectID exportID videoID)) (\<lambda>tst.
     await (retrieveProject projectID) (\<lambda>project.
     await (invoke (MountModel (directory project))
              (Tester_mountModel Te tst (directory project))) (\<lambda>mountedModelPath.
     await (invoke (MountVideo (directory project))
              (Tester_mountVideo Te tst (directory project))) (\<lambda>mountedVideoPath.
     await (invoke
              (TesterWriteParameterFile (directory project) mountedModelPath mountedVideoPath)
              (Tester_writeParameterFile Te (directory project)
                 mountedModelPath mountedVideoPath)) (\<lambda>_.
     await (invoke (TestModel (project_id project))
              (Tester_testModel Te (project_id project))) (\<lambda>_.
     await (invoke (SaveOutputVid (directory project))
              (Tester_saveOutputVid Te tst (directory project))) (\<lambda>_.
     await (invoke (SaveTest (project_id project))
              (Tester_saveTest Te tst (project_id project))) (\<lambda>_.
     resolve ''testing complete''))))))))"

text \<open>
  \<^verbatim>\<open>if (project.containerIDs.train)\<close> tests JavaScript truthiness: \<^verbatim>\<open>null\<close> and the empty
  string are both falsy. (\<^verbatim>\<open>pauseTraining\<close> and \<^verbatim>\<open>resumeTraining\<close> compare the handle with
  \<^verbatim>\<open>null\<close> instead.)
\<close>

definition halt :: "'x Docker \<Rightarrow> string \<Rightarrow> (unit, 'x) prog" where
  "halt D i =
     await (retrieveProject i) (\<lambda>project.
     case train (containerIDs project) of
       None \<Rightarrow> reject (Rejected ''no trainjob found'')
     | Some h \<Rightarrow>
         if h \<noteq> [] then
           await (invoke_runtime (KillContainer h) (Docker_killContainer D h)) (\<lambda>_.
           updateState (project_id project) NOT_TRAINING)
         else reject (Rejected ''no trainjob found''))"

definition pauseTraining :: "'x Docker \<Rightarrow> string \<Rightarrow> (unit, 'x) prog" where
  "pauseTraining D i =
     await (retrieveProject i) (\<lambda>project.
     await (read_trainingStatus i) (\<lambda>current.
     if current = Some PAUSED then reject (Rejected ''training is already paused'')
     else
       (case train (containerIDs project) of
          None \<Rightarrow> reject (Rejected ''no trainjob found'')
        | Some h \<Rightarrow>
            await (invoke_runtime (PauseContainer h) (Docker_pauseContainer D h)) (\<lambda>_.
            updateState (project_id project) PAUSED))))"

definition resumeTraining :: "'x Docker \<Rightarrow> string \<Rightarrow> (unit, 'x) prog" where
  "resumeTraining D i =
     await (retrieveProject i) (\<lambda>project.
     await (read_trainingStatus i) (\<lambda>current.
     if current \<noteq> Some PAUSED then reject (Rejected ''training is not paused'')
     else
       (case train (containerIDs project) of
          None \<Rightarrow> reject (Rejected ''no trainjob found'')
        | Some h \<Rightarrow>
            await (invoke_runtime (ResumeContainer h) (Docker_resumeContainer D h)) (\<lambda>_.
            updateState (project_id project) TRAINING))))"

definition getStatus :: "string \<Rightarrow> (slot, 'x) prog" where
  "getStatus i c = (Inr (status_lookup c i), c)"

text \<open>\<^verbatim>\<open>if (currentStep)\<close>: no value and \<open>0\<close> are falsy.\<close>

definition updateCheckpoints :: "'x Trainer \<Rightarrow> string \<Rightarrow> (unit, 'x) prog" where
  "updateCheckpoints T i =
     await (invoke (TrainerUpdateCheckpoints i) (Trainer_updateCheckpoints T i)) (\<lambda>currentStep.
     case currentStep of
       None \<Rightarrow> resolve ()
     | Some n \<Rightarrow>
         if n \<noteq> 0 then await (updateStep i n) (\<lambda>_. resolve ())
         else resolve ())"

section \<open>Notions the properties are stated in\<close>

text \<open>
  The store and the status table agree on project \<open>j\<close>: the project holds a training
  container handle (\<^verbatim>\<open>containerIDs.train\<close> is not \<^verbatim>\<open>null\<close>) exactly when its status is
  \<^verbatim>\<open>TRAINING\<close> or \<^verbatim>\<open>PAUSED\<close>. It speaks about projects that have both a record in the
  store and a status record.
\<close>

definition train_invariant :: "'x config \<Rightarrow> string \<Rightarrow> bool" where
  "train_invariant c j =
     (case lookup_project j (db (world c)) of
        None \<Rightarrow> True
      | Some p \<Rightarrow>
          (case status c j of
             None \<Rightarrow> True
           | Some st \<Rightarrow>
               (train (containerIDs p) \<noteq> None) =
               (trainingStatus st = TRAINING \<or> trainingStatus st = PAUSED)))"

section \<open>Concrete collaborators and configurations\<close>

text \<open>
  A runtime whose every operation succeeds; a trainer whose every step succeeds, whose
  training step stores the handle of the container it launched in the project record,
  and whose checkpoint poll reports epoch 50; a trainer whose training step fails
  before any container runs; one project \<^verbatim>\<open>p1\<close> with an epoch target of
  50, with or without a handle and with or without a status record.
\<close>

definition docker_ok :: "unit Docker" where
  "docker_ok =
     \<lparr>Docker_testDaemon = (\<lambda>x. (Inr True, x)),
      Docker_pull = (\<lambda>_ x. (Inr (), x)),
      Docker_killContainer = (\<lambda>_ x. (Inr (), x)),
      Docker_pauseContainer = (\<lambda>_ x. (Inr (), x)),
      Docker_resumeContainer = (\<lambda>_ x. (Inr (), x))\<rparr>"

definition trainer_ok :: "unit Trainer" where
  "trainer_ok =
     \<lparr>Trainer_writeParameterFile = (\<lambda>_ w. (Inr (), w)),
      Trainer_handleOldData = (\<lambda>_ w. (Inr (), w)),
      Trainer_moveDataToMount = (\<lambda>_ w. (Inr (), w)),
      Trainer_extractDataset = (\<lambda>_ w. (Inr (), w)),
      Trainer_trainModel =
        (\<lambda>i w. (Inr (), w\<lparr>db := map (\<lambda>p. if project_id p = i
                      then p\<lparr>containerIDs := \<lparr>train = Some ''c1''\<rparr>\<rparr> else p) (db w)\<rparr>)),
      Trainer_updateCheckpoints = (\<lambda>_ w. (Inr (Some 50), w))\<rparr>"

definition trainer_failing :: "unit Trainer" where
  "trainer_failing =
     trainer_ok\<lparr>Trainer_trainModel :=
       (\<lambda>_ w. (Inl (Failure ''training container failed''), w))\<rparr>"

definition demo_project :: "string option \<Rightarrow> ProjectData" where
  "demo_project h =
     \<lparr>project_id = ''p1'', directory = ''/projects/p1'',
      hyperparameters = \<lparr>epochs = 50\<rparr>, containerIDs = \<lparr>train = h\<rparr>\<rparr>"

definition demo_status :: "TrainingStatus \<Rightarrow> ProjectStatus" where
  "demo_status s = \<lparr>trainingStatus = s, currentEpoch = 0, lastEpoch = 50\<rparr>"

definition demo_config :: "string option \<Rightarrow> TrainingStatus option \<Rightarrow> unit config" where
  "demo_config h s =
     \<lparr>trainer_state = READY,
      status = (case s of None \<Rightarrow> Map.empty | Some t \<Rightarrow> [''p1'' \<mapsto> demo_status t]),
      members = (\<lambda>_. no_fields),
      object_prototype = no_fields,
      world = \<lparr>db = [demo_project h], runtime = ()\<rparr>,
      trace = []\<rparr>"


text \<open>
  A project whose id is the name of a property every plain object inherits, training in
  container \<^verbatim>\<open>c1\<close>, in a service whose status table is empty.
\<close>

definition inherited_project :: ProjectData where
  "inherited_project =
     \<lparr>project_id = ''constructor'', directory = ''/projects/constructor'',
      hyperparameters = \<lparr>epochs = 50\<rparr>, containerIDs = \<lparr>train = Some ''c1''\<rparr>\<rparr>"

definition inherited_config :: "unit config" where
  "inherited_config =
     \<lparr>trainer_state = READY,
      status = Map.empty,
      members = (\<lambda>_. no_fields),
      object_prototype = no_fields,
      world = \<lparr>db = [inherited_project], runtime = ()\<rparr>,
      trace = []\<rparr>"

subsection \<open>Boot progress\<close>

text \<open>
  What the log says about boot progress: the readiness states entered and the image
  pulls begun, in order. The script is the order the source prescribes, from the state
  the constructor sets up to \<^verbatim>\<open>READY\<close>, each pulling state directly before the pull of
  its image.
\<close>

datatype boot_step = Enter TrainerState | Pulling string

fun boot_steps :: "event list \<Rightarrow> boot_step list" where
  "boot_steps [] = []"
| "boot_steps (SetTrainerState s # es) = Enter s # boot_steps es"
| "boot_steps (Call (Pull img) _ # es) = Pulling img # boot_steps es"
| "boot_steps (_ # es) = boot_steps es"

fun states_entered :: "boot_step list \<Rightarrow> TrainerState list" where
  "states_entered [] = []"
| "states_entered (Enter s # bs) = s # states_entered bs"
| "states_entered (Pulling _ # bs) = states_entered bs"

definition boot_script :: "boot_step list" where
  "boot_script =
     [Enter SCANNING_FOR_DOCKER,
      Enter SCANNING_PROJECTS,
      Enter DATASET_PULL, Pulling DATASET_IMAGE,
      Enter METRICS_PULL, Pulling METRICS_IMAGE,
      Enter TRAINER_PULL, Pulling TRAIN_IMAGE,
      Enter EXPORT_PULL, Pulling EXPORT_IMAGE,
      Enter TEST_PULL, Pulling TEST_IMAGE,
      Enter READY]"

text \<open>
  The status table after \<^verbatim>\<open>addStatus\<close> has been called for each record of the
  database in turn: a fresh status record under the id of each.
\<close>

fun seed_status ::
  "ProjectData list \<Rightarrow> (string \<rightharpoonup> ProjectStatus) \<Rightarrow> (string \<rightharpoonup> ProjectStatus)" where
  "seed_status [] m = m"
| "seed_status (p # ps) m =
     seed_status ps
       (m(project_id p \<mapsto>
          \<lparr>trainingStatus = NOT_TRAINING, currentEpoch = 0,
           lastEpoch = epochs (hyperparameters p)\<rparr>))"

text \<open>
  A runtime that does not respond to the liveness probe, one that cannot pull the metrics
  image, and a world to boot in.
\<close>

definition docker_down :: "unit Docker" where
  "docker_down = docker_ok\<lparr>Docker_testDaemon := (\<lambda>x. (Inr False, x))\<rparr>"

definition docker_metrics_missing :: "unit Docker" where
  "docker_metrics_missing =
     docker_ok\<lparr>Docker_pull := (\<lambda>img x.
       if img = METRICS_IMAGE then (Inl (Failure ''pull failed''), x) else (Inr (), x))\<rparr>"

definition demo_world :: "unit world" where
  "demo_world = \<lparr>db = [demo_project None], runtime = ()\<rparr>"

subsection \<open>Export runs\<close>

text \<open>
  An exporter over a world whose opaque part is one flag, the in-use mark of the
  checkpoint: \<^verbatim>\<open>updateCheckpointStatus\<close> writes the flag and no other step touches it.
  Every step of the first succeeds; the conversion step of the second fails.
\<close>

definition exporter_ok :: "(bool, string) Exporter" where
  "exporter_ok =
     \<lparr>Exporter_locateCheckpoint = (\<lambda>_ _ w. (Inr (), w)),
      Exporter_createExport = (\<lambda>_ name w. (Inr name, w)),
      Exporter_createDestinationDirectory = (\<lambda>_ w. (Inr (), w)),
      Exporter_updateCheckpointStatus = (\<lambda>_ _ b w. (Inr (), w\<lparr>runtime := b\<rparr>)),
      Exporter_writeParameterFile = (\<lambda>_ _ _ w. (Inr (), w)),
      Exporter_exportCheckpoint = (\<lambda>_ w. (Inr (), w)),
      Exporter_saveExport = (\<lambda>_ _ _ w. (Inr (), w))\<rparr>"

definition exporter_failing :: "(bool, string) Exporter" where
  "exporter_failing =
     exporter_ok\<lparr>Exporter_exportCheckpoint :=
       (\<lambda>_ w. (Inl (Failure ''conversion failed''), w))\<rparr>"

definition export_config :: "bool config" where
  "export_config =
     \<lparr>trainer_state = READY, status = Map.empty,
      members = (\<lambda>_. no_fields), object_prototype = no_fields,
      world = \<lparr>db = [demo_project None], runtime = False\<rparr>,
      trace = []\<rparr>"

section \<open>Running the model\<close>

lemmas run_defs =
  await_def retrieveProject_def read_trainingStatus_def status_lookup_def updateState_def
  invoke_runtime_def reject_def resolve_def outcome_def

lemmas demo_defs =
  docker_ok_def demo_project_def demo_status_def demo_config_def lookup_project_def
  Object_prototype_functions_def inherited_number_def no_fields_def

text \<open>A record found under an id carries that id, and a stored record is found again.\<close>

lemma lookup_project_id: "lookup_project i ps = Some p \<Longrightarrow> project_id p = i"
  by (auto simp: lookup_project_def find_Some_iff)

lemma lookup_store_project:
  "lookup_project (project_id q) (store_project q ps) = Some q"
  by (induction ps) (simp_all add: lookup_project_def)

text \<open>
  When a method resolves, every step it awaited resolved. The facts below say what one
  resolved step did to the log, the status table and the world.
\<close>

lemma await_resolvedE:
  assumes "await m rest c = (Inr v, c')"
  obtains a c1 where "m c = (Inr a, c1)" and "rest a c1 = (Inr v, c')"
  using assms by (auto simp: await_def split: prod.splits sum.splits)

lemma resolve_resolved: "resolve x c = (Inr v, c1) \<Longrightarrow> v = x \<and> c1 = c"
  by (auto simp: resolve_def)

lemma retrieveProject_resolved:
  "retrieveProject i c = (Inr p, c1) \<Longrightarrow>
   lookup_project i (db (world c)) = Some p \<and>
   trace c1 = trace c @ [Call (RetrieveProject i) None] \<and>
   status c1 = status c \<and> world c1 = world c"
  by (auto simp: retrieveProject_def split: option.splits)

lemma invoke_resolved:
  "invoke k f c = (Inr a, c1) \<Longrightarrow>
   trace c1 = trace c @ [Call k None] \<and>
   status c1 = status c \<and> world c1 = snd (f (world c))"
  by (auto simp: invoke_def outcome_def split: prod.splits)

lemma updateState_resolved:
  "updateState i s c = (Inr a, c1) \<Longrightarrow>
   trace c1 = trace c @ [SetTrainingStatus i s] \<and>
   status c1 = (status c)(i := map_option (trainingStatus_update (\<lambda>_. s)) (status c i)) \<and>
   world c1 = world c"
  by (auto simp: updateState_def status_lookup_def split: option.splits slot.splits if_splits)

lemma updateStep_resolved:
  "updateStep i n c = (Inr a, c1) \<Longrightarrow>
   trace c1 = trace c @ [SetCurrentEpoch i n] \<and>
   status c1 = (status c)(i := map_option (currentEpoch_update (\<lambda>_. n)) (status c i)) \<and>
   world c1 = world c"
  by (auto simp: updateStep_def status_lookup_def split: option.splits slot.splits if_splits)

lemma updateLastStep_resolved:
  "updateLastStep i n c = (Inr a, c1) \<Longrightarrow>
   trace c1 = trace c @ [SetLastEpoch i n] \<and>
   status c1 = (status c)(i := map_option (lastEpoch_update (\<lambda>_. n)) (status c i)) \<and>
   world c1 = world c"
  by (auto simp: updateLastStep_def status_lookup_def split: option.splits slot.splits if_splits)

lemma pushProject_resolved:
  "detached (pushProject q) c = (Inr a, c1) \<Longrightarrow>
   trace c1 = trace c @ [Call (PushProject q) None] \<and>
   status c1 = status c \<and>
   db (world c1) = store_project q (db (world c))"
  by (auto simp: detached_def pushProject_def)

lemmas resolved =
  resolve_resolved retrieveProject_resolved invoke_resolved updateState_resolved
  updateStep_resolved updateLastStep_resolved pushProject_resolved

section \<open>What a run leaves alone\<close>

text \<open>
  Calls to collaborators and to the store never touch the status table; only the
  service's own writes do.
\<close>

lemma await_status:
  assumes "\<And>c. status (snd (m c)) = status c"
    and "\<And>v c. status (snd (rest v c)) = status c"
  shows "status (snd (await m rest c)) = status c"
proof (cases "m c")
  case (Pair r c')
  have "status c' = status c"
    using assms(1) [of c] Pair by simp
  then show ?thesis
    using Pair assms(2) by (cases r) (simp_all add: await_def)
qed

lemma invoke_status: "status (snd (invoke k f c)) = status c"
  by (simp add: invoke_def split: prod.splits)

lemma retrieveProject_status: "status (snd (retrieveProject i c)) = status c"
  by (simp add: retrieveProject_def split: option.splits)

lemma resolve_status: "status (snd (resolve v c)) = status c"
  by (simp add: resolve_def)

section \<open>Steps of a method\<close>

text \<open>
  What \<^verbatim>\<open>this.status[id]\<close> evaluates to depends on the table, the members and the
  prototype only, and it is a record exactly for the keys of the table.
\<close>

lemma inherited_number_frame:
  "inherited_number (c\<lparr>trace := t\<rparr>) i = inherited_number c i"
  "inherited_number (c\<lparr>world := w\<rparr>) i = inherited_number c i"
  by (simp_all add: inherited_number_def)

lemma status_lookup_frame:
  "status_lookup (c\<lparr>trace := t\<rparr>) i = status_lookup c i"
  "status_lookup (c\<lparr>world := w\<rparr>) i = status_lookup c i"
  by (simp_all add: status_lookup_def inherited_number_frame)

lemma status_lookup_Record: "(status_lookup c i = Record st) = (status c i = Some st)"
  by (simp add: status_lookup_def split: option.splits)

lemma status_lookup_no_record:
  "status_lookup c i = Missing \<or> status_lookup c i = Member m \<or>
   status_lookup c i = Prototype \<or> status_lookup c i = Number \<Longrightarrow> status c i = None"
  by (auto simp: status_lookup_def split: option.splits)

lemmas step_defs =
  await_def retrieveProject_def read_trainingStatus_def updateState_def
  invoke_runtime_def reject_def resolve_def outcome_def status_lookup_frame

text \<open>
  An awaited step and the rest of the method, in one step: one rule for each kind of
  statement the methods are made of.
\<close>

lemma await_invoke:
  "await (invoke k f) rest c =
     (case f (world c) of
        (Inl e, w') \<Rightarrow> (Inl e, c\<lparr>world := w', trace := trace c @ [Call k (Some e)]\<rparr>)
      | (Inr a, w') \<Rightarrow> rest a (c\<lparr>world := w', trace := trace c @ [Call k None]\<rparr>))"
  by (simp add: await_def invoke_def outcome_def split: prod.splits sum.splits)

lemma await_invoke_runtime:
  "await (invoke_runtime k f) rest c =
     (case f (runtime (world c)) of
        (Inl e, x') \<Rightarrow>
          (Inl e, c\<lparr>world := (world c)\<lparr>runtime := x'\<rparr>,
                     trace := trace c @ [Call k (Some e)]\<rparr>)
      | (Inr a, x') \<Rightarrow>
          rest a (c\<lparr>world := (world c)\<lparr>runtime := x'\<rparr>,
                    trace := trace c @ [Call k None]\<rparr>))"
  by (simp add: await_def invoke_runtime_def outcome_def split: prod.splits sum.splits)


lemma await_retrieveDatabase:
  "await retrieveDatabase rest c =
     rest (db (world c)) (c\<lparr>trace := trace c @ [Call RetrieveDatabase None]\<rparr>)"
  by (simp add: await_def retrieveDatabase_def)

lemma await_set_trainer_state:
  "await (set_trainer_state s) rest c =
     rest () (c\<lparr>trainer_state := s, trace := trace c @ [SetTrainerState s]\<rparr>)"
  by (simp add: await_def set_trainer_state_def)

lemma await_forEach_addStatus:
  "await (forEach_addStatus ps) rest c = rest () (fold addStatus ps c)"
  by (simp add: await_def forEach_addStatus_def)






section \<open>The boot sequence\<close>

lemma boot_steps_append: "boot_steps (xs @ ys) = boot_steps xs @ boot_steps ys"
  by (induction xs rule: boot_steps.induct) simp_all

lemma boot_steps_AddStatus: "boot_steps (map (\<lambda>p. AddStatus (project_id p)) ps) = []"
  by (induction ps) simp_all

lemma states_entered_append:
  "states_entered (xs @ ys) = states_entered xs @ states_entered ys"
  by (induction xs rule: states_entered.induct) simp_all

lemma boot_script_forward:
  assumes "prefix bs boot_script"
  shows "sorted_wrt (<) (map TrainerState_value (states_entered bs))"
proof -
  from assms obtain zs where "boot_script = bs @ zs"
    by (auto simp: prefix_def)
  then have split: "bs @ zs = boot_script" by simp
  have "sorted_wrt (<) (map TrainerState_value (states_entered boot_script))"
    by (simp add: boot_script_def)
  then have "sorted_wrt (<) (map TrainerState_value (states_entered (bs @ zs)))"
    by (simp only: split)
  then show ?thesis
    by (simp add: states_entered_append sorted_wrt_append)
qed

text \<open>The scan of the projects: what the loop over the database leaves behind.\<close>

lemma fold_addStatus:
  "fold addStatus ps c =
     c\<lparr>status := seed_status ps (status c),
       trace := trace c @ map (\<lambda>p. AddStatus (project_id p)) ps\<rparr>"
  by (induction ps arbitrary: c) (simp_all add: addStatus_def)

text \<open>
  Construction of the service written out: the result of \<^verbatim>\<open>prepare\<close> and the
  configuration left behind, for each of the eight ways boot can go.
\<close>

lemma boot_run:
  "MLService_new D w =
     (case Docker_testDaemon D (runtime w) of
        (Inl e, x0) \<Rightarrow>
          (Inl e,
           (initial_config w)
           \<lparr>world := w\<lparr>runtime := x0\<rparr>,
            trace :=
               [SetTrainerState SCANNING_FOR_DOCKER,
                Call TestDaemon (Some e)]\<rparr>)
      | (Inr alive, x0) \<Rightarrow>
          if \<not> alive then
            (Inr (),
             (initial_config w)
             \<lparr>trainer_state := NO_DOCKER_INSTALLED,
              world := w\<lparr>runtime := x0\<rparr>,
              trace :=
                 [SetTrainerState SCANNING_FOR_DOCKER,
                  Call TestDaemon None,
                  SetTrainerState NO_DOCKER_INSTALLED]\<rparr>)
          else
          (case Docker_pull D DATASET_IMAGE x0 of
             (Inl e, x1) \<Rightarrow>
               (Inl e,
                (initial_config w)
                \<lparr>trainer_state := DATASET_PULL,
                 status := seed_status (db w) Map.empty,
                 world := w\<lparr>runtime := x1\<rparr>,
                 trace :=
                    [SetTrainerState SCANNING_FOR_DOCKER,
                      Call TestDaemon None,
                      SetTrainerState SCANNING_PROJECTS,
                      Call RetrieveDatabase None] @
                    map (\<lambda>p. AddStatus (project_id p)) (db w) @
                    [SetTrainerState DATASET_PULL,
                     Call (Pull DATASET_IMAGE) (Some e)]\<rparr>)
           | (Inr u1, x1) \<Rightarrow>
             (case Docker_pull D METRICS_IMAGE x1 of
                (Inl e, x2) \<Rightarrow>
                  (Inl e,
                   (initial_config w)
                   \<lparr>trainer_state := METRICS_PULL,
                    status := seed_status (db w) Map.empty,
                    world := w\<lparr>runtime := x2\<rparr>,
                    trace :=
                       [SetTrainerState SCANNING_FOR_DOCKER,
                         Call TestDaemon None,
                         SetTrainerState SCANNING_PROJECTS,
                         Call RetrieveDatabase None] @
                       map (\<lambda>p. AddStatus (project_id p)) (db w) @
                       [SetTrainerState DATASET_PULL,
                        Call (Pull DATASET_IMAGE) None,
                        SetTrainerState METRICS_PULL,
                        Call (Pull METRICS_IMAGE) (Some e)]\<rparr>)
              | (Inr u2, x2) \<Rightarrow>
                (case Docker_pull D TRAIN_IMAGE x2 of
                   (Inl e, x3) \<Rightarrow>
                     (Inl e,
                      (initial_config w)
                      \<lparr>trainer_state := TRAINER_PULL,
                       status := seed_status (db w) Map.empty,
                       world := w\<lparr>runtime := x3\<rparr>,
                       trace :=
                          [SetTrainerState SCANNING_FOR_DOCKER,
                            Call TestDaemon None,
                            SetTrainerState SCANNING_PROJECTS,
                            Call RetrieveDatabase None] @
                          map (\<lambda>p. AddStatus (project_id p)) (db w) @
                          [SetTrainerState DATASET_PULL,
                           Call (Pull DATASET_IMAGE) None,
                           SetTrainerState METRICS_PULL,
                           Call (Pull METRICS_IMAGE) None,
                           SetTrainerState TRAINER_PULL,
                           Call (Pull TRAIN_IMAGE) (Some e)]\<rparr>)
                 | (Inr u3, x3) \<Rightarrow>
                   (case Docker_pull D EXPORT_IMAGE x3 of
                      (Inl e, x4) \<Rightarrow>
                        (Inl e,
                         (initial_config w)
                         \<lparr>trainer_state := EXPORT_PULL,
                          status := seed_status (db w) Map.empty,
                          world := w\<lparr>runtime := x4\<rparr>,
                          trace :=
                             [SetTrainerState SCANNING_FOR_DOCKER,
                               Call TestDaemon None,
                               SetTrainerState SCANNING_PROJECTS,
                               Call RetrieveDatabase None] @
                             map (\<lambda>p. AddStatus (project_id p)) (db w) @
                             [SetTrainerState DATASET_PULL,
                              Call (Pull DATASET_IMAGE) None,
                              SetTrainerState METRICS_PULL,
                              Call (Pull METRICS_IMAGE) None,
                              SetTrainerState TRAINER_PULL,
                              Call (Pull TRAIN_IMAGE) None,
                              SetTrainerState EXPORT_PULL,
                              Call (Pull EXPORT_IMAGE) (Some e)]\<rparr>)
                    | (Inr u4, x4) \<Rightarrow>
                      (case Docker_pull D TEST_IMAGE x4 of
                         (Inl e, x5) \<Rightarrow>
                           (Inl e,
                            (initial_config w)
                            \<lparr>trainer_state := TEST_PULL,
                             status := seed_status (db w) Map.empty,
                             world := w\<lparr>runtime := x5\<rparr>,
                             trace :=
                                [SetTrainerState SCANNING_FOR_DOCKER,
                                  Call TestDaemon None,
                                  SetTrainerState SCANNING_PROJECTS,
                                  Call RetrieveDatabase None] @
                                map (\<lambda>p. AddStatus (project_id p)) (db w) @
                                [SetTrainerState DATASET_PULL,
                                 Call (Pull DATASET_IMAGE) None,
                                 SetTrainerState METRICS_PULL,
                                 Call (Pull METRICS_IMAGE) None,
                                 SetTrainerState TRAINER_PULL,
                                 Call (Pull TRAIN_IMAGE) None,
                                 SetTrainerState EXPORT_PULL,
                                 Call (Pull EXPORT_IMAGE) None,
                                 SetTrainerState TEST_PULL,
                                 Call (Pull TEST_IMAGE) (Some e)]\<rparr>)
                       | (Inr u5, x5) \<Rightarrow>
                         (Inr (),
                          (initial_config w)
                          \<lparr>trainer_state := READY,
                           status := seed_status (db w) Map.empty,
                           world := w\<lparr>runtime := x5\<rparr>,
                           trace :=
                              [SetTrainerState SCANNING_FOR_DOCKER,
                                Call TestDaemon None,
                                SetTrainerState SCANNING_PROJECTS,
                                Call RetrieveDatabase None] @
                              map (\<lambda>p. AddStatus (project_id p)) (db w) @
                              [SetTrainerState DATASET_PULL,
                               Call (Pull DATASET_IMAGE) None,
                               SetTrainerState METRICS_PULL,
                               Call (Pull METRICS_IMAGE) None,
                               SetTrainerState TRAINER_PULL,
                               Call (Pull TRAIN_IMAGE) None,
                               SetTrainerState EXPORT_PULL,
                               Call (Pull EXPORT_IMAGE) None,
                               SetTrainerState TEST_PULL,
                               Call (Pull TEST_IMAGE) None,
                               SetTrainerState READY]\<rparr>)))))))"
  by (simp add: MLService_new_def prepare_def await_invoke_runtime await_set_trainer_state
        await_retrieveDatabase await_forEach_addStatus fold_addStatus resolve_def
        initial_config_def if_distribR
      cong: prod.case_cong sum.case_cong if_cong)

lemma boot_alive:
  "Docker_testDaemon D (runtime w) = (Inr True, x) \<Longrightarrow>
   prefix (boot_steps (trace (snd (MLService_new D w)))) boot_script \<and>
   trainer_state (snd (MLService_new D w)) =
     last (states_entered (boot_steps (trace (snd (MLService_new D w)))))"
  by (simp add: boot_run initial_config_def boot_steps_append boot_steps_AddStatus
        boot_script_def
      split: prod.splits sum.splits)

text \<open>
  C3. Every run of the boot sequence, by what the container runtime returns. The service
  is constructed in \<^verbatim>\<open>SCANNING_FOR_DOCKER\<close> and probes the runtime. If the probe fails,
  boot ends there with the probe's error. If the probe answers false, the state becomes
  \<^verbatim>\<open>NO_DOCKER_INSTALLED\<close>, boot ends, and nothing but the probe was called: no pull is
  attempted and no status record is seeded. If it answers true, the state becomes
  \<^verbatim>\<open>SCANNING_PROJECTS\<close>, a status record is seeded for every project of the store, and
  then for each of the dataset, metrics, train, export and test images, in this order,
  the service enters the image's pulling state and directly pulls the image, on the
  runtime the pull before it left. The first pull that fails ends boot with its error
  in that image's pulling state, and no later state is entered or image pulled; when
  all five pulls resolve, the state becomes \<^verbatim>\<open>READY\<close>. So, unless the probe answers
  false, the states entered and the pulls begun are an initial part of the script
  \<^verbatim>\<open>SCANNING_FOR_DOCKER\<close>, \<^verbatim>\<open>SCANNING_PROJECTS\<close>, each pulling state directly followed by
  its pull, \<^verbatim>\<open>READY\<close>: no state is skipped or repeated, the states only move forward in
  the enumeration, and the service is in the last state entered. In the run where the
  probe answers false the states are \<^verbatim>\<open>SCANNING_FOR_DOCKER\<close> and then
  \<^verbatim>\<open>NO_DOCKER_INSTALLED\<close>, which the enumeration lists first.
\<close>

theorem boot_sequence:
  "(\<forall>e x0.
      Docker_testDaemon D (runtime w) = (Inl e, x0) \<longrightarrow>
      MLService_new D w =
        (Inl e,
         (initial_config w)
         \<lparr>world := w\<lparr>runtime := x0\<rparr>,
          trace :=
             [SetTrainerState SCANNING_FOR_DOCKER,
              Call TestDaemon (Some e)]\<rparr>)) \<and>
   (\<forall>x0.
      Docker_testDaemon D (runtime w) = (Inr False, x0) \<longrightarrow>
      MLService_new D w =
        (Inr (),
         (initial_config w)
         \<lparr>trainer_state := NO_DOCKER_INSTALLED,
          world := w\<lparr>runtime := x0\<rparr>,
          trace :=
             [SetTrainerState SCANNING_FOR_DOCKER,
              Call TestDaemon None,
              SetTrainerState NO_DOCKER_INSTALLED]\<rparr>)) \<and>
   (\<forall>x0 e x1.
      Docker_testDaemon D (runtime w) = (Inr True, x0) \<and>
      Docker_pull D DATASET_IMAGE x0 = (Inl e, x1) \<longrightarrow>
      MLService_new D w =
        (Inl e,
         (initial_config w)
         \<lparr>trainer_state := DATASET_PULL,
          status := seed_status (db w) Map.empty,
          world := w\<lparr>runtime := x1\<rparr>,
          trace :=
             [SetTrainerState SCANNING_FOR_DOCKER,
               Call TestDaemon None,
               SetTrainerState SCANNING_PROJECTS,
               Call RetrieveDatabase None] @
             map (\<lambda>p. AddStatus (project_id p)) (db w) @
             [SetTrainerState DATASET_PULL,
              Call (Pull DATASET_IMAGE) (Some e)]\<rparr>)) \<and>
   (\<forall>x0 u1 x1 e x2.
      Docker_testDaemon D (runtime w) = (Inr True, x0) \<and>
      Docker_pull D DATASET_IMAGE x0 = (Inr u1, x1) \<and>
      Docker_pull D METRICS_IMAGE x1 = (Inl e, x2) \<longrightarrow>
      MLService_new D w =
        (Inl e,
         (initial_config w)
         \<lparr>trainer_state := METRICS_PULL,
          status := seed_status (db w) Map.empty,
          world := w\<lparr>runtime := x2\<rparr>,
          trace :=
             [SetTrainerState SCANNING_FOR_DOCKER,
               Call TestDaemon None,
               SetTrainerState SCANNING_PROJECTS,
               Call RetrieveDatabase None] @
             map (\<lambda>p. AddStatus (project_id p)) (db w) @
             [SetTrainerState DATASET_PULL,
              Call (Pull DATASET_IMAGE) None,
              SetTrainerState METRICS_PULL,
              Call (Pull METRICS_IMAGE) (Some e)]\<rparr>)) \<and>
   (\<forall>x0 u1 x1 u2 x2 e x3.
      Docker_testDaemon D (runtime w) = (Inr True, x0) \<and>
      Docker_pull D DATASET_IMAGE x0 = (Inr u1, x1) \<and>
      Docker_pull D METRICS_IMAGE x1 = (Inr u2, x2) \<and>
      Docker_pull D TRAIN_IMAGE x2 = (Inl e, x3) \<longrightarrow>
      MLService_new D w =
        (Inl e,
         (initial_config w)
         \<lparr>trainer_state := TRAINER_PULL,
          status := seed_status (db w) Map.empty,
          world := w\<lparr>runtime := x3\<rparr>,
          trace :=
             [SetTrainerState SCANNING_FOR_DOCKER,
               Call TestDaemon None,
               SetTrainerState SCANNING_PROJECTS,
               Call RetrieveDatabase None] @
             map (\<lambda>p. AddStatus (project_id p)) (db w) @
             [SetTrainerState DATASET_PULL,
              Call (Pull DATASET_IMAGE) None,
              SetTrainerState METRICS_PULL,
              Call (Pull METRICS_IMAGE) None,
              SetTrainerState TRAINER_PULL,
              Call (Pull TRAIN_IMAGE) (Some e)]\<rparr>)) \<and>
   (\<forall>x0 u1 x1 u2 x2 u3 x3 e x4.
      Docker_testDaemon D (runtime w) = (Inr True, x0) \<and>
      Docker_pull D DATASET_IMAGE x0 = (Inr u1, x1) \<and>
      Docker_pull D METRICS_IMAGE x1 = (Inr u2, x2) \<and>
      Docker_pull D TRAIN_IMAGE x2 = (Inr u3, x3) \<and>
      Docker_pull D EXPORT_IMAGE x3 = (Inl e, x4) \<longrightarrow>
      MLService_new D w =
        (Inl e,
         (initial_config w)
         \<lparr>trainer_state := EXPORT_PULL,
          status := seed_status (db w) Map.empty,
          world := w\<lparr>runtime := x4\<rparr>,
          trace :=
             [SetTrainerState SCANNING_FOR_DOCKER,
               Call TestDaemon None,
               SetTrainerState SCANNING_PROJECTS,
               Call RetrieveDatabase None] @
             map (\<lambda>p. AddStatus (project_id p)) (db w) @
             [SetTrainerState DATASET_PULL,
              Call (Pull DATASET_IMAGE) None,
              SetTrainerState METRICS_PULL,
              Call (Pull METRICS_IMAGE) None,
              SetTrainerState TRAINER_PULL,
              Call (Pull TRAIN_IMAGE) None,
              SetTrainerState EXPORT_PULL,
              Call (Pull EXPORT_IMAGE) (Some e)]\<rparr>)) \<and>
   (\<forall>x0 u1 x1 u2 x2 u3 x3 u4 x4 e x5.
      Docker_testDaemon D (runtime w) = (Inr True, x0) \<and>
      Docker_pull D DATASET_IMAGE x0 = (Inr u1, x1) \<and>
      Docker_pull D METRICS_IMAGE x1 = (Inr u2, x2) \<and>
      Docker_pull D TRAIN_IMAGE x2 = (Inr u3, x3) \<and>
      Docker_pull D EXPORT_IMAGE x3 = (Inr u4, x4) \<and>
      Docker_pull D TEST_IMAGE x4 = (Inl e, x5) \<longrightarrow>
      MLService_new D w =
        (Inl e,
         (initial_config w)
         \<lparr>trainer_state := TEST_PULL,
          status := seed_status (db w) Map.empty,
          world := w\<lparr>runtime := x5\<rparr>,
          trace :=
             [SetTrainerState SCANNING_FOR_DOCKER,
               Call TestDaemon None,
               SetTrainerState SCANNING_PROJECTS,
               Call RetrieveDatabase None] @
             map (\<lambda>p. AddStatus (project_id p)) (db w) @
             [SetTrainerState DATASET_PULL,
              Call (Pull DATASET_IMAGE) None,
              SetTrainerState METRICS_PULL,
              Call (Pull METRICS_IMAGE) None,
              SetTrainerState TRAINER_PULL,
              Call (Pull TRAIN_IMAGE) None,
              SetTrainerState EXPORT_PULL,
              Call (Pull EXPORT_IMAGE) None,
              SetTrainerState TEST_PULL,
              Call (Pull TEST_IMAGE) (Some e)]\<rparr>)) \<and>
   (\<forall>x0 u1 x1 u2 x2 u3 x3 u4 x4 u5 x5.
      Docker_testDaemon D (runtime w) = (Inr True, x0) \<and>
      Docker_pull D DATASET_IMAGE x0 = (Inr u1, x1) \<and>
      Docker_pull D METRICS_IMAGE x1 = (Inr u2, x2) \<and>
      Docker_pull D TRAIN_IMAGE x2 = (Inr u3, x3) \<and>
      Docker_pull D EXPORT_IMAGE x3 = (Inr u4, x4) \<and>
      Docker_pull D TEST_IMAGE x4 = (Inr u5, x5) \<longrightarrow>
      MLService_new D w =
        (Inr (),
         (initial_config w)
         \<lparr>trainer_state := READY,
          status := seed_status (db w) Map.empty,
          world := w\<lparr>runtime := x5\<rparr>,
          trace :=
             [SetTrainerState SCANNING_FOR_DOCKER,
               Call TestDaemon None,
               SetTrainerState SCANNING_PROJECTS,
               Call RetrieveDatabase None] @
             map (\<lambda>p. AddStatus (project_id p)) (db w) @
             [SetTrainerState DATASET_PULL,
              Call (Pull DATASET_IMAGE) None,
              SetTrainerState METRICS_PULL,
              Call (Pull METRICS_IMAGE) None,
              SetTrainerState TRAINER_PULL,
              Call (Pull TRAIN_IMAGE) None,
              SetTrainerState EXPORT_PULL,
              Call (Pull EXPORT_IMAGE) None,
              SetTrainerState TEST_PULL,
              Call (Pull TEST_IMAGE) None,
              SetTrainerState READY]\<rparr>)) \<and>
   (fst (Docker_testDaemon D (runtime w)) \<noteq> Inr False \<longrightarrow>
      prefix (boot_steps (trace (snd (MLService_new D w)))) boot_script \<and>
      sorted_wrt (<)
        (map TrainerState_value
           (states_entered (boot_steps (trace (snd (MLService_new D w)))))) \<and>
      trainer_state (snd (MLService_new D w)) =
        last (states_entered (boot_steps (trace (snd (MLService_new D w))))))"
proof -
  have runs:
    "(\<forall>e x0.
      Docker_testDaemon D (runtime w) = (Inl e, x0) \<longrightarrow>
      MLService_new D w =
        (Inl e,
         (initial_config w)
         \<lparr>world := w\<lparr>runtime := x0\<rparr>,
          trace :=
             [SetTrainerState SCANNING_FOR_DOCKER,
              Call TestDaemon (Some e)]\<rparr>))"
    "(\<forall>x0.
      Docker_testDaemon D (runtime w) = (Inr False, x0) \<longrightarrow>
      MLService_new D w =
        (Inr (),
         (initial_config w)
         \<lparr>trainer_state := NO_DOCKER_INSTALLED,
          world := w\<lparr>runtime := x0\<rparr>,
          trace :=
             [SetTrainerState SCANNING_FOR_DOCKER,
              Call TestDaemon None,
              SetTrainerState NO_DOCKER_INSTALLED]\<rparr>))"
    "(\<forall>x0 e x1.
      Docker_testDaemon D (runtime w) = (Inr True, x0) \<and>
      Docker_pull D DATASET_IMAGE x0 = (Inl e, x1) \<longrightarrow>
      MLService_new D w =
        (Inl e,
         (initial_config w)
         \<lparr>trainer_state := DATASET_PULL,
          status := seed_status (db w) Map.empty,
          world := w\<lparr>runtime := x1\<rparr>,
          trace :=
             [SetTrainerState SCANNING_FOR_DOCKER,
               Call TestDaemon None,
               SetTrainerState SCANNING_PROJECTS,
               Call RetrieveDatabase None] @
             map (\<lambda>p. AddStatus (project_id p)) (db w) @
             [SetTrainerState DATASET_PULL,
              Call (Pull DATASET_IMAGE) (Some e)]\<rparr>))"
    "(\<forall>x0 u1 x1 e x2.
      Docker_testDaemon D (runtime w) = (Inr True, x0) \<and>
      Docker_pull D DATASET_IMAGE x0 = (Inr u1, x1) \<and>
      Docker_pull D METRICS_IMAGE x1 = (Inl e, x2) \<longrightarrow>
      MLService_new D w =
        (Inl e,
         (initial_config w)
         \<lparr>trainer_state := METRICS_PULL,
          status := seed_status (db w) Map.empty,
          world := w\<lparr>runtime := x2\<rparr>,
          trace :=
             [SetTrainerState SCANNING_FOR_DOCKER,
               Call TestDaemon None,
               SetTrainerState SCANNING_PROJECTS,
               Call RetrieveDatabase None] @
             map (\<lambda>p. AddStatus (project_id p)) (db w) @
             [SetTrainerState DATASET_PULL,
              Call (Pull DATASET_IMAGE) None,
              SetTrainerState METRICS_PULL,
              Call (Pull METRICS_IMAGE) (Some e)]\<rparr>))"
    "(\<forall>x0 u1 x1 u2 x2 e x3.
      Docker_testDaemon D (runtime w) = (Inr True, x0) \<and>
      Docker_pull D DATASET_IMAGE x0 = (Inr u1, x1) \<and>
      Docker_pull D METRICS_IMAGE x1 = (Inr u2, x2) \<and>
      Docker_pull D TRAIN_IMAGE x2 = (Inl e, x3) \<longrightarrow>
      MLService_new D w =
        (Inl e,
         (initial_config w)
         \<lparr>trainer_state := TRAINER_PULL,
          status := seed_status (db w) Map.empty,
          world := w\<lparr>runtime := x3\<rparr>,
          trace :=
             [SetTrainerState SCANNING_FOR_DOCKER,
               Call TestDaemon None,
               SetTrainerState SCANNING_PROJECTS,
               Call RetrieveDatabase None] @
             map (\<lambda>p. AddStatus (project_id p)) (db w) @
             [SetTrainerState DATASET_PULL,
              Call (Pull DATASET_IMAGE) None,
              SetTrainerState METRICS_PULL,
              Call (Pull METRICS_IMAGE) None,
              SetTrainerState TRAINER_PULL,
              Call (Pull TRAIN_IMAGE) (Some e)]\<rparr>))"
    "(\<forall>x0 u1 x1 u2 x2 u3 x3 e x4.
      Docker_testDaemon D (runtime w) = (Inr True, x0) \<and>
      Docker_pull D DATASET_IMAGE x0 = (Inr u1, x1) \<and>
      Docker_pull D METRICS_IMAGE x1 = (Inr u2, x2) \<and>
      Docker_pull D TRAIN_IMAGE x2 = (Inr u3, x3) \<and>
      Docker_pull D EXPORT_IMAGE x3 = (Inl e, x4) \<longrightarrow>
      MLService_new D w =
        (Inl e,
         (initial_config w)
         \<lparr>trainer_state := EXPORT_PULL,
          status := seed_status (db w) Map.empty,
          world := w\<lparr>runtime := x4\<rparr>,
          trace :=
             [SetTrainerState SCANNING_FOR_DOCKER,
               Call TestDaemon None,
               SetTrainerState SCANNING_PROJECTS,
               Call RetrieveDatabase None] @
             map (\<lambda>p. AddStatus (project_id p)) (db w) @
             [SetTrainerState DATASET_PULL,
              Call (Pull DATASET_IMAGE) None,
              SetTrainerState METRICS_PULL,
              Call (Pull METRICS_IMAGE) None,
              SetTrainerState TRAINER_PULL,
              Call (Pull TRAIN_IMAGE) None,
              SetTrainerState EXPORT_PULL,
              Call (Pull EXPORT_IMAGE) (Some e)]\<rparr>))"
    "(\<forall>x0 u1 x1 u2 x2 u3 x3 u4 x4 e x5.
      Docker_testDaemon D (runtime w) = (Inr True, x0) \<and>
      Docker_pull D DATASET_IMAGE x0 = (Inr u1, x1) \<and>
      Docker_pull D METRICS_IMAGE x1 = (Inr u2, x2) \<and>
      Docker_pull D TRAIN_IMAGE x2 = (Inr u3, x3) \<and>
      Docker_pull D EXPORT_IMAGE x3 = (Inr u4, x4) \<and>
      Docker_pull D TEST_IMAGE x4 = (Inl e, x5) \<longrightarrow>
      MLService_new D w =
        (Inl e,
         (initial_config w)
         \<lparr>trainer_state := TEST_PULL,
          status := seed_status (db w) Map.empty,
          world := w\<lparr>runtime := x5\<rparr>,
          trace :=
             [SetTrainerState SCANNING_FOR_DOCKER,
               Call TestDaemon None,
               SetTrainerState SCANNING_PROJECTS,
               Call RetrieveDatabase None] @
             map (\<lambda>p. AddStatus (project_id p)) (db w) @
             [SetTrainerState DATASET_PULL,
              Call (Pull DATASET_IMAGE) None,
              SetTrainerState METRICS_PULL,
              Call (Pull METRICS_IMAGE) None,
              SetTrainerState TRAINER_PULL,
              Call (Pull TRAIN_IMAGE) None,
              SetTrainerState EXPORT_PULL,
              Call (Pull EXPORT_IMAGE) None,
              SetTrainerState TEST_PULL,
              Call (Pull TEST_IMAGE) (Some e)]\<rparr>))"
    "(\<forall>x0 u1 x1 u2 x2 u3 x3 u4 x4 u5 x5.
      Docker_testDaemon D (runtime w) = (Inr True, x0) \<and>
      Docker_pull D DATASET_IMAGE x0 = (Inr u1, x1) \<and>
      Docker_pull D METRICS_IMAGE x1 = (Inr u2, x2) \<and>
      Docker_pull D TRAIN_IMAGE x2 = (Inr u3, x3) \<and>
      Docker_pull D EXPORT_IMAGE x3 = (Inr u4, x4) \<and>
      Docker_pull D TEST_IMAGE x4 = (Inr u5, x5) \<longrightarrow>
      MLService_new D w =
        (Inr (),
         (initial_config w)
         \<lparr>trainer_state := READY,
          status := seed_status (db w) Map.empty,
          world := w\<lparr>runtime := x5\<rparr>,
          trace :=
             [SetTrainerState SCANNING_FOR_DOCKER,
               Call TestDaemon None,
               SetTrainerState SCANNING_PROJECTS,
               Call RetrieveDatabase None] @
             map (\<lambda>p. AddStatus (project_id p)) (db w) @
             [SetTrainerState DATASET_PULL,
              Call (Pull DATASET_IMAGE) None,
              SetTrainerState METRICS_PULL,
              Call (Pull METRICS_IMAGE) None,
              SetTrainerState TRAINER_PULL,
              Call (Pull TRAIN_IMAGE) None,
              SetTrainerState EXPORT_PULL,
              Call (Pull EXPORT_IMAGE) None,
              SetTrainerState TEST_PULL,
              Call (Pull TEST_IMAGE) None,
              SetTrainerState READY]\<rparr>))"
    by (simp_all add: boot_run)
  have script: "prefix (boot_steps (trace (snd (MLService_new D w)))) boot_script \<and>
      trainer_state (snd (MLService_new D w)) =
        last (states_entered (boot_steps (trace (snd (MLService_new D w)))))"
    if alive: "fst (Docker_testDaemon D (runtime w)) \<noteq> Inr False"
  proof (cases "Docker_testDaemon D (runtime w)")
    case (Pair r x0)
    show ?thesis
    proof (cases r)
      case (Inl e)
      with Pair show ?thesis
        by (simp add: boot_run initial_config_def boot_script_def)
    next
      case (Inr a)
      with Pair alive have "Docker_testDaemon D (runtime w) = (Inr True, x0)"
        by simp
      then show ?thesis
        by (rule boot_alive)
    qed
  qed
  from runs script
    boot_script_forward [of "boot_steps (trace (snd (MLService_new D w)))"]
  show ?thesis
    by blast
qed

text \<open>
  A responding runtime boots to \<^verbatim>\<open>READY\<close> along the whole script, seeding the status
  record of \<^verbatim>\<open>p1\<close>; a runtime that cannot pull the metrics image leaves the service in
  \<^verbatim>\<open>METRICS_PULL\<close>; a runtime that does not respond leaves it in
  \<^verbatim>\<open>NO_DOCKER_INSTALLED\<close> with no pull and no status record.
\<close>

theorem boot_sequence_witness:
  "MLService_new docker_ok demo_world =
     (Inr (),
      \<lparr>trainer_state = READY,
       status = [''p1'' \<mapsto>
         \<lparr>trainingStatus = NOT_TRAINING, currentEpoch = 0, lastEpoch = 50\<rparr>],
       members = (\<lambda>_. no_fields),
       object_prototype = no_fields,
       world = demo_world,
       trace =
         [SetTrainerState SCANNING_FOR_DOCKER, Call TestDaemon None,
          SetTrainerState SCANNING_PROJECTS, Call RetrieveDatabase None,
          AddStatus ''p1'',
          SetTrainerState DATASET_PULL, Call (Pull DATASET_IMAGE) None,
          SetTrainerState METRICS_PULL, Call (Pull METRICS_IMAGE) None,
          SetTrainerState TRAINER_PULL, Call (Pull TRAIN_IMAGE) None,
          SetTrainerState EXPORT_PULL, Call (Pull EXPORT_IMAGE) None,
          SetTrainerState TEST_PULL, Call (Pull TEST_IMAGE) None,
          SetTrainerState READY]\<rparr>) \<and>
   boot_steps (trace (snd (MLService_new docker_ok demo_world))) = boot_script \<and>
   MLService_new docker_metrics_missing demo_world =
     (Inl (Failure ''pull failed''),
      \<lparr>trainer_state = METRICS_PULL,
       status = [''p1'' \<mapsto>
         \<lparr>trainingStatus = NOT_TRAINING, currentEpoch = 0, lastEpoch = 50\<rparr>],
       members = (\<lambda>_. no_fields),
       object_prototype = no_fields,
       world = demo_world,
       trace =
         [SetTrainerState SCANNING_FOR_DOCKER, Call TestDaemon None,
          SetTrainerState SCANNING_PROJECTS, Call RetrieveDatabase None,
          AddStatus ''p1'',
          SetTrainerState DATASET_PULL, Call (Pull DATASET_IMAGE) None,
          SetTrainerState METRICS_PULL,
          Call (Pull METRICS_IMAGE) (Some (Failure ''pull failed''))]\<rparr>) \<and>
   MLService_new docker_down demo_world =
     (Inr (),
      \<lparr>trainer_state = NO_DOCKER_INSTALLED,
       status = Map.empty,
       members = (\<lambda>_. no_fields),
       object_prototype = no_fields,
       world = demo_world,
       trace =
         [SetTrainerState SCANNING_FOR_DOCKER, Call TestDaemon None,
          SetTrainerState NO_DOCKER_INSTALLED]\<rparr>)"
proof -
  note images = DATASET_IMAGE_def METRICS_IMAGE_def TRAIN_IMAGE_def EXPORT_IMAGE_def
    TEST_IMAGE_def
  have ready: "MLService_new docker_ok demo_world =
     (Inr (),
      \<lparr>trainer_state = READY,
       status = [''p1'' \<mapsto>
         \<lparr>trainingStatus = NOT_TRAINING, currentEpoch = 0, lastEpoch = 50\<rparr>],
       members = (\<lambda>_. no_fields),
       object_prototype = no_fields,
       world = demo_world,
       trace =
         [SetTrainerState SCANNING_FOR_DOCKER, Call TestDaemon None,
          SetTrainerState SCANNING_PROJECTS, Call RetrieveDatabase None,
          AddStatus ''p1'',
          SetTrainerState DATASET_PULL, Call (Pull DATASET_IMAGE) None,
          SetTrainerState METRICS_PULL, Call (Pull METRICS_IMAGE) None,
          SetTrainerState TRAINER_PULL, Call (Pull TRAIN_IMAGE) None,
          SetTrainerState EXPORT_PULL, Call (Pull EXPORT_IMAGE) None,
          SetTrainerState TEST_PULL, Call (Pull TEST_IMAGE) None,
          SetTrainerState READY]\<rparr>)"
    using boot_sequence [of docker_ok demo_world]
    by (simp add: docker_ok_def demo_world_def demo_project_def initial_config_def)
  then have script: "boot_steps (trace (snd (MLService_new docker_ok demo_world))) = boot_script"
    by (simp add: boot_script_def)
  have stuck: "MLService_new docker_metrics_missing demo_world =
     (Inl (Failure ''pull failed''),
      \<lparr>trainer_state = METRICS_PULL,
       status = [''p1'' \<mapsto>
         \<lparr>trainingStatus = NOT_TRAINING, currentEpoch = 0, lastEpoch = 50\<rparr>],
       members = (\<lambda>_. no_fields),
       object_prototype = no_fields,
       world = demo_world,
       trace =
         [SetTrainerState SCANNING_FOR_DOCKER, Call TestDaemon None,
          SetTrainerState SCANNING_PROJECTS, Call RetrieveDatabase None,
          AddStatus ''p1'',
          SetTrainerState DATASET_PULL, Call (Pull DATASET_IMAGE) None,
          SetTrainerState METRICS_PULL,
          Call (Pull METRICS_IMAGE) (Some (Failure ''pull failed''))]\<rparr>)"
    using boot_sequence [of docker_metrics_missing demo_world]
    by (simp add: docker_metrics_missing_def docker_ok_def demo_world_def demo_project_def
          initial_config_def images)
  have dead: "MLService_new docker_down demo_world =
     (Inr (),
      \<lparr>trainer_state = NO_DOCKER_INSTALLED,
       status = Map.empty,
       members = (\<lambda>_. no_fields),
       object_prototype = no_fields,
       world = demo_world,
       trace =
         [SetTrainerState SCANNING_FOR_DOCKER, Call TestDaemon None,
          SetTrainerState NO_DOCKER_INSTALLED]\<rparr>)"
    using boot_sequence [of docker_down demo_world]
    by (simp add: docker_down_def docker_ok_def demo_world_def demo_project_def
          initial_config_def)
  from ready script stuck dead show ?thesis
    by simp
qed

section \<open>The export pipeline\<close>

text \<open>
  \<^verbatim>\<open>export\<close> written out: the result and the configuration left behind, for each of the
  nine ways a run can go (one of the eight calls fails, or all resolve).
\<close>

lemma export_run:
  "export E i n name c =
     (case Exporter_locateCheckpoint E i n (world c) of
        (Inl e, w1) \<Rightarrow>
          (Inl e, c\<lparr>world := w1, trace := trace c @
             [Call (LocateCheckpoint i n) (Some e)]\<rparr>)
      | (Inr u1, w1) \<Rightarrow>
        (case Exporter_createExport E i name w1 of
           (Inl e, w2) \<Rightarrow>
             (Inl e, c\<lparr>world := w2, trace := trace c @
                [Call (LocateCheckpoint i n) None,
                 Call (CreateExport i name) (Some e)]\<rparr>)
         | (Inr exp, w2) \<Rightarrow>
           (case Exporter_createDestinationDirectory E exp w2 of
              (Inl e, w3) \<Rightarrow>
                (Inl e, c\<lparr>world := w3, trace := trace c @
                   [Call (LocateCheckpoint i n) None,
                    Call (CreateExport i name) None,
                    Call CreateDestinationDirectory (Some e)]\<rparr>)
            | (Inr u3, w3) \<Rightarrow>
              (case Exporter_updateCheckpointStatus E i n True w3 of
                 (Inl e, w4) \<Rightarrow>
                   (Inl e, c\<lparr>world := w4, trace := trace c @
                      [Call (LocateCheckpoint i n) None,
                       Call (CreateExport i name) None,
                       Call CreateDestinationDirectory None,
                       Call (UpdateCheckpointStatus i n True) (Some e)]\<rparr>)
               | (Inr u4, w4) \<Rightarrow>
                 (case Exporter_writeParameterFile E i n exp w4 of
                    (Inl e, w5) \<Rightarrow>
                      (Inl e, c\<lparr>world := w5, trace := trace c @
                         [Call (LocateCheckpoint i n) None,
                          Call (CreateExport i name) None,
                          Call CreateDestinationDirectory None,
                          Call (UpdateCheckpointStatus i n True) None,
                          Call (ExporterWriteParameterFile i n) (Some e)]\<rparr>)
                  | (Inr u5, w5) \<Rightarrow>
                    (case Exporter_exportCheckpoint E i w5 of
                       (Inl e, w6) \<Rightarrow>
                         (Inl e, c\<lparr>world := w6, trace := trace c @
                            [Call (LocateCheckpoint i n) None,
                             Call (CreateExport i name) None,
                             Call CreateDestinationDirectory None,
                             Call (UpdateCheckpointStatus i n True) None,
                             Call (ExporterWriteParameterFile i n) None,
                             Call (ExportCheckpoint i) (Some e)]\<rparr>)
                     | (Inr u6, w6) \<Rightarrow>
                       (case Exporter_saveExport E i exp n w6 of
                          (Inl e, w7) \<Rightarrow>
                            (Inl e, c\<lparr>world := w7, trace := trace c @
                               [Call (LocateCheckpoint i n) None,
                                Call (CreateExport i name) None,
                                Call CreateDestinationDirectory None,
                                Call (UpdateCheckpointStatus i n True) None,
                                Call (ExporterWriteParameterFile i n) None,
                                Call (ExportCheckpoint i) None,
                                Call (SaveExport i n) (Some e)]\<rparr>)
                        | (Inr u7, w7) \<Rightarrow>
                          (case Exporter_updateCheckpointStatus E i n False w7 of
                             (Inl e, w8) \<Rightarrow>
                               (Inl e, c\<lparr>world := w8, trace := trace c @
                                  [Call (LocateCheckpoint i n) None,
                                   Call (CreateExport i name) None,
                                   Call CreateDestinationDirectory None,
                                   Call (UpdateCheckpointStatus i n True) None,
                                   Call (ExporterWriteParameterFile i n) None,
                                   Call (ExportCheckpoint i) None,
                                   Call (SaveExport i n) None,
                                   Call (UpdateCheckpointStatus i n False) (Some e)]\<rparr>)
                           | (Inr u8, w8) \<Rightarrow>
                             (Inr ''exported'', c\<lparr>world := w8, trace := trace c @
                                [Call (LocateCheckpoint i n) None,
                                 Call (CreateExport i name) None,
                                 Call CreateDestinationDirectory None,
                                 Call (UpdateCheckpointStatus i n True) None,
                                 Call (ExporterWriteParameterFile i n) None,
                                 Call (ExportCheckpoint i) None,
                                 Call (SaveExport i n) None,
                                 Call (UpdateCheckpointStatus i n False) None]\<rparr>)))))))))"
  by (simp add: export_def await_invoke resolve_def cong: prod.case_cong sum.case_cong)

text \<open>
  C7. Every run of \<^verbatim>\<open>export\<close>, by what the exporter's steps return. The steps are
  called in the order: locate the checkpoint, create the export, create its directory,
  set the in-use mark, write the parameter file, run the export container, save the
  export, clear the in-use mark; each is called on the world the step before it left,
  and only when every step before it has resolved. The first step that fails ends the
  run: the caller gets that step's error, no later step is called, and the world is the
  one the failed step left. So the mark is set before the container runs, and the
  clearing step runs only when the save of the export record has resolved; the run
  resolves, with \<^verbatim>\<open>exported\<close>, exactly when all eight steps resolve. When writing the
  parameter file, running the container or saving the export fails, the clearing step
  is not called and the checkpoint stays marked in use: a property of the world that
  setting the mark establishes and those three steps keep holds in the world the run
  leaves behind.
\<close>

theorem export_in_use_bracket:
  "(\<forall>e w1.
        Exporter_locateCheckpoint E i n (world c) = (Inl e, w1) \<longrightarrow>
        export E i n name c =
          (Inl e, c\<lparr>world := w1, trace := trace c @
            [Call (LocateCheckpoint i n) (Some e)]\<rparr>)) \<and>
   (\<forall>u1 w1 e w2.
        Exporter_locateCheckpoint E i n (world c) = (Inr u1, w1) \<and>
        Exporter_createExport E i name w1 = (Inl e, w2) \<longrightarrow>
        export E i n name c =
          (Inl e, c\<lparr>world := w2, trace := trace c @
            [Call (LocateCheckpoint i n) None,
             Call (CreateExport i name) (Some e)]\<rparr>)) \<and>
   (\<forall>u1 w1 exp w2 e w3.
        Exporter_locateCheckpoint E i n (world c) = (Inr u1, w1) \<and>
        Exporter_createExport E i name w1 = (Inr exp, w2) \<and>
        Exporter_createDestinationDirectory E exp w2 = (Inl e, w3) \<longrightarrow>
        export E i n name c =
          (Inl e, c\<lparr>world := w3, trace := trace c @
            [Call (LocateCheckpoint i n) None,
             Call (CreateExport i name) None,
             Call CreateDestinationDirectory (Some e)]\<rparr>)) \<and>
   (\<forall>u1 w1 exp w2 u3 w3 e w4.
        Exporter_locateCheckpoint E i n (world c) = (Inr u1, w1) \<and>
        Exporter_createExport E i name w1 = (Inr exp, w2) \<and>
        Exporter_createDestinationDirectory E exp w2 = (Inr u3, w3) \<and>
        Exporter_updateCheckpointStatus E i n True w3 = (Inl e, w4) \<longrightarrow>
        export E i n name c =
          (Inl e, c\<lparr>world := w4, trace := trace c @
            [Call (LocateCheckpoint i n) None,
             Call (CreateExport i name) None,
             Call CreateDestinationDirectory None,
             Call (UpdateCheckpointStatus i n True) (Some e)]\<rparr>)) \<and>
   (\<forall>u1 w1 exp w2 u3 w3 u4 w4 e w5.
        Exporter_locateCheckpoint E i n (world c) = (Inr u1, w1) \<and>
        Exporter_createExport E i name w1 = (Inr exp, w2) \<and>
        Exporter_createDestinationDirectory E exp w2 = (Inr u3, w3) \<and>
        Exporter_updateCheckpointStatus E i n True w3 = (Inr u4, w4) \<and>
        Exporter_writeParameterFile E i n exp w4 = (Inl e, w5) \<longrightarrow>
        export E i n name c =
          (Inl e, c\<lparr>world := w5, trace := trace c @
            [Call (LocateCheckpoint i n) None,
             Call (CreateExport i name) None,
             Call CreateDestinationDirectory None,
             Call (UpdateCheckpointStatus i n True) None,
             Call (ExporterWriteParameterFile i n) (Some e)]\<rparr>)) \<and>
   (\<forall>u1 w1 exp w2 u3 w3 u4 w4 u5 w5 e w6.
        Exporter_locateCheckpoint E i n (world c) = (Inr u1, w1) \<and>
        Exporter_createExport E i name w1 = (Inr exp, w2) \<and>
        Exporter_createDestinationDirectory E exp w2 = (Inr u3, w3) \<and>
        Exporter_updateCheckpointStatus E i n True w3 = (Inr u4, w4) \<and>
        Exporter_writeParameterFile E i n exp w4 = (Inr u5, w5) \<and>
        Exporter_exportCheckpoint E i w5 = (Inl e, w6) \<longrightarrow>
        export E i n name c =
          (Inl e, c\<lparr>world := w6, trace := trace c @
            [Call (LocateCheckpoint i n) None,
             Call (CreateExport i name) None,
             Call CreateDestinationDirectory None,
             Call (UpdateCheckpointStatus i n True) None,
             Call (ExporterWriteParameterFile i n) None,
             Call (ExportCheckpoint i) (Some e)]\<rparr>)) \<and>
   (\<forall>u1 w1 exp w2 u3 w3 u4 w4 u5 w5 u6 w6 e w7.
        Exporter_locateCheckpoint E i n (world c) = (Inr u1, w1) \<and>
        Exporter_createExport E i name w1 = (Inr exp, w2) \<and>
        Exporter_createDestinationDirectory E exp w2 = (Inr u3, w3) \<and>
        Exporter_updateCheckpointStatus E i n True w3 = (Inr u4, w4) \<and>
        Exporter_writeParameterFile E i n exp w4 = (Inr u5, w5) \<and>
        Exporter_exportCheckpoint E i w5 = (Inr u6, w6) \<and>
        Exporter_saveExport E i exp n w6 = (Inl e, w7) \<longrightarrow>
        export E i n name c =
          (Inl e, c\<lparr>world := w7, trace := trace c @
            [Call (LocateCheckpoint i n) None,
             Call (CreateExport i name) None,
             Call CreateDestinationDirectory None,
             Call (UpdateCheckpointStatus i n True) None,
             Call (ExporterWriteParameterFile i n) None,
             Call (ExportCheckpoint i) None,
             Call (SaveExport i n) (Some e)]\<rparr>)) \<and>
   (\<forall>u1 w1 exp w2 u3 w3 u4 w4 u5 w5 u6 w6 u7 w7 e w8.
        Exporter_locateCheckpoint E i n (world c) = (Inr u1, w1) \<and>
        Exporter_createExport E i name w1 = (Inr exp, w2) \<and>
        Exporter_createDestinationDirectory E exp w2 = (Inr u3, w3) \<and>
        Exporter_updateCheckpointStatus E i n True w3 = (Inr u4, w4) \<and>
        Exporter_writeParameterFile E i n exp w4 = (Inr u5, w5) \<and>
        Exporter_exportCheckpoint E i w5 = (Inr u6, w6) \<and>
        Exporter_saveExport E i exp n w6 = (Inr u7, w7) \<and>
        Exporter_updateCheckpointStatus E i n False w7 = (Inl e, w8) \<longrightarrow>
        export E i n name c =
          (Inl e, c\<lparr>world := w8, trace := trace c @
            [Call (LocateCheckpoint i n) None,
             Call (CreateExport i name) None,
             Call CreateDestinationDirectory None,
             Call (UpdateCheckpointStatus i n True) None,
             Call (ExporterWriteParameterFile i n) None,
             Call (ExportCheckpoint i) None,
             Call (SaveExport i n) None,
             Call (UpdateCheckpointStatus i n False) (Some e)]\<rparr>)) \<and>
   (\<forall>u1 w1 exp w2 u3 w3 u4 w4 u5 w5 u6 w6 u7 w7 u8 w8.
        Exporter_locateCheckpoint E i n (world c) = (Inr u1, w1) \<and>
        Exporter_createExport E i name w1 = (Inr exp, w2) \<and>
        Exporter_createDestinationDirectory E exp w2 = (Inr u3, w3) \<and>
        Exporter_updateCheckpointStatus E i n True w3 = (Inr u4, w4) \<and>
        Exporter_writeParameterFile E i n exp w4 = (Inr u5, w5) \<and>
        Exporter_exportCheckpoint E i w5 = (Inr u6, w6) \<and>
        Exporter_saveExport E i exp n w6 = (Inr u7, w7) \<and>
        Exporter_updateCheckpointStatus E i n False w7 = (Inr u8, w8) \<longrightarrow>
        export E i n name c =
          (Inr ''exported'', c\<lparr>world := w8, trace := trace c @
            [Call (LocateCheckpoint i n) None,
             Call (CreateExport i name) None,
             Call CreateDestinationDirectory None,
             Call (UpdateCheckpointStatus i n True) None,
             Call (ExporterWriteParameterFile i n) None,
             Call (ExportCheckpoint i) None,
             Call (SaveExport i n) None,
             Call (UpdateCheckpointStatus i n False) None]\<rparr>)) \<and>
   ((\<forall>w. fst (Exporter_updateCheckpointStatus E i n True w) = Inr () \<longrightarrow>
           marked (snd (Exporter_updateCheckpointStatus E i n True w))) \<and>
    (\<forall>x w. marked w \<longrightarrow>
           marked (snd (Exporter_writeParameterFile E i n x w)) \<and>
           marked (snd (Exporter_exportCheckpoint E i w)) \<and>
           marked (snd (Exporter_saveExport E i x n w))) \<longrightarrow>
    (\<forall>u1 w1 exp w2 u3 w3 u4 w4 e w5.
        Exporter_locateCheckpoint E i n (world c) = (Inr u1, w1) \<and>
        Exporter_createExport E i name w1 = (Inr exp, w2) \<and>
        Exporter_createDestinationDirectory E exp w2 = (Inr u3, w3) \<and>
        Exporter_updateCheckpointStatus E i n True w3 = (Inr u4, w4) \<and>
        Exporter_writeParameterFile E i n exp w4 = (Inl e, w5) \<longrightarrow>
        marked (world (snd (export E i n name c)))) \<and>
    (\<forall>u1 w1 exp w2 u3 w3 u4 w4 u5 w5 e w6.
        Exporter_locateCheckpoint E i n (world c) = (Inr u1, w1) \<and>
        Exporter_createExport E i name w1 = (Inr exp, w2) \<and>
        Exporter_createDestinationDirectory E exp w2 = (Inr u3, w3) \<and>
        Exporter_updateCheckpointStatus E i n True w3 = (Inr u4, w4) \<and>
        Exporter_writeParameterFile E i n exp w4 = (Inr u5, w5) \<and>
        Exporter_exportCheckpoint E i w5 = (Inl e, w6) \<longrightarrow>
        marked (world (snd (export E i n name c)))) \<and>
    (\<forall>u1 w1 exp w2 u3 w3 u4 w4 u5 w5 u6 w6 e w7.
        Exporter_locateCheckpoint E i n (world c) = (Inr u1, w1) \<and>
        Exporter_createExport E i name w1 = (Inr exp, w2) \<and>
        Exporter_createDestinationDirectory E exp w2 = (Inr u3, w3) \<and>
        Exporter_updateCheckpointStatus E i n True w3 = (Inr u4, w4) \<and>
        Exporter_writeParameterFile E i n exp w4 = (Inr u5, w5) \<and>
        Exporter_exportCheckpoint E i w5 = (Inr u6, w6) \<and>
        Exporter_saveExport E i exp n w6 = (Inl e, w7) \<longrightarrow>
        marked (world (snd (export E i n name c)))))"
  apply (intro conjI)
           apply (simp_all add: export_run)
  apply (intro conjI impI allI; elim conjE)
    apply (metis fst_conv snd_conv)+
  done

text \<open>
  The bracket on a world whose opaque part is the in-use mark: a failing conversion
  leaves the mark set, a run with no failure clears it.
\<close>

theorem export_in_use_bracket_witness:
  "export exporter_failing ''p1'' 3 ''model'' export_config =
     (Inl (Failure ''conversion failed''),
      export_config\<lparr>world := \<lparr>db = [demo_project None], runtime = True\<rparr>,
        trace := [Call (LocateCheckpoint ''p1'' 3) None,
                  Call (CreateExport ''p1'' ''model'') None,
                  Call CreateDestinationDirectory None,
                  Call (UpdateCheckpointStatus ''p1'' 3 True) None,
                  Call (ExporterWriteParameterFile ''p1'' 3) None,
                  Call (ExportCheckpoint ''p1'') (Some (Failure ''conversion failed''))]\<rparr>) \<and>
   runtime (world (snd (export exporter_failing ''p1'' 3 ''model'' export_config))) \<and>
   export exporter_ok ''p1'' 3 ''model'' export_config =
     (Inr ''exported'',
      export_config\<lparr>world := \<lparr>db = [demo_project None], runtime = False\<rparr>,
        trace := [Call (LocateCheckpoint ''p1'' 3) None,
                  Call (CreateExport ''p1'' ''model'') None,
                  Call CreateDestinationDirectory None,
                  Call (UpdateCheckpointStatus ''p1'' 3 True) None,
                  Call (ExporterWriteParameterFile ''p1'' 3) None,
                  Call (ExportCheckpoint ''p1'') None,
                  Call (SaveExport ''p1'' 3) None,
                  Call (UpdateCheckpointStatus ''p1'' 3 False) None]\<rparr>)"
proof -
  have failing: "export exporter_failing ''p1'' 3 ''model'' export_config =
     (Inl (Failure ''conversion failed''),
      export_config\<lparr>world := \<lparr>db = [demo_project None], runtime = True\<rparr>,
        trace := [Call (LocateCheckpoint ''p1'' 3) None,
                  Call (CreateExport ''p1'' ''model'') None,
                  Call CreateDestinationDirectory None,
                  Call (UpdateCheckpointStatus ''p1'' 3 True) None,
                  Call (ExporterWriteParameterFile ''p1'' 3) None,
                  Call (ExportCheckpoint ''p1'') (Some (Failure ''conversion failed''))]\<rparr>) \<and>
     runtime (world (snd (export exporter_failing ''p1'' 3 ''model'' export_config)))"
    using export_in_use_bracket [where E = exporter_failing and i = "''p1''" and n = 3
        and name = "''model''" and c = export_config and marked = runtime]
    by (simp add: exporter_failing_def exporter_ok_def export_config_def)
  have ok: "export exporter_ok ''p1'' 3 ''model'' export_config =
     (Inr ''exported'',
      export_config\<lparr>world := \<lparr>db = [demo_project None], runtime = False\<rparr>,
        trace := [Call (LocateCheckpoint ''p1'' 3) None,
                  Call (CreateExport ''p1'' ''model'') None,
                  Call CreateDestinationDirectory None,
                  Call (UpdateCheckpointStatus ''p1'' 3 True) None,
                  Call (ExporterWriteParameterFile ''p1'' 3) None,
                  Call (ExportCheckpoint ''p1'') None,
                  Call (SaveExport ''p1'' 3) None,
                  Call (UpdateCheckpointStatus ''p1'' 3 False) None]\<rparr>)"
    using export_in_use_bracket [where E = exporter_ok and i = "''p1''" and n = 3
        and name = "''model''" and c = export_config and marked = runtime]
    by (simp add: exporter_ok_def export_config_def)
  from failing ok show ?thesis by simp
qed

section \<open>The training pipeline\<close>




section \<open>Live container control\<close>

text \<open>
  C4, as amended. Let \<open>i\<close> be the id of a project in the store. When the project's
  training handle is absent (\<^verbatim>\<open>null\<close>, or the empty string, which \<^verbatim>\<open>halt\<close> does not tell
  apart), \<^verbatim>\<open>halt(i)\<close> is rejected with \<^verbatim>\<open>"no trainjob found"\<close> and does nothing else. When
  the handle is present, the kill of that container completes and \<open>i\<close> has a status
  record, \<^verbatim>\<open>halt(i)\<close> resolves, has killed that container, and has set the record's
  \<^verbatim>\<open>trainingStatus\<close> to \<^verbatim>\<open>NOT_TRAINING\<close>, leaving every other status record alone.
\<close>

theorem halt_with_status_record:
  assumes "lookup_project i (db (world c)) = Some p"
  shows
    "(train (containerIDs p) = None \<or> train (containerIDs p) = Some [] \<longrightarrow>
        halt D i c =
          (Inl (Rejected ''no trainjob found''),
           c\<lparr>trace := trace c @ [Call (RetrieveProject i) None]\<rparr>)) \<and>
     (\<forall>h st x'.
        train (containerIDs p) = Some h \<and> h \<noteq> [] \<and> status c i = Some st \<and>
        Docker_killContainer D h (runtime (world c)) = (Inr (), x') \<longrightarrow>
        halt D i c =
          (Inr (),
           c\<lparr>status := (status c)(i \<mapsto> st\<lparr>trainingStatus := NOT_TRAINING\<rparr>),
             world := (world c)\<lparr>runtime := x'\<rparr>,
             trace := trace c @
               [Call (RetrieveProject i) None, Call (KillContainer h) None,
                SetTrainingStatus i NOT_TRAINING]\<rparr>))"
  using assms lookup_project_id [OF assms]
  by (auto simp: halt_def run_defs)

theorem halt_with_status_record_witness:
  "lookup_project ''p1'' (db (world (demo_config (Some ''c1'') (Some TRAINING)))) =
     Some (demo_project (Some ''c1'')) \<and>
   fst (halt docker_ok ''p1'' (demo_config (Some ''c1'') (Some TRAINING))) = Inr () \<and>
   status (snd (halt docker_ok ''p1'' (demo_config (Some ''c1'') (Some TRAINING)))) ''p1'' =
     Some (demo_status NOT_TRAINING) \<and>
   halt docker_ok ''p1'' (demo_config None (Some NOT_TRAINING)) =
     (Inl (Rejected ''no trainjob found''),
      (demo_config None (Some NOT_TRAINING))\<lparr>trace := [Call (RetrieveProject ''p1'') None]\<rparr>)"
  using halt_with_status_record [of "''p1''" "demo_config (Some ''c1'') (Some TRAINING)"
      "demo_project (Some ''c1'')" docker_ok]
    halt_with_status_record [of "''p1''" "demo_config None (Some NOT_TRAINING)"
      "demo_project None" docker_ok]
  by (simp add: demo_defs)

text \<open>
  C4 as stated, for every project id in the store, fails: \<^verbatim>\<open>p1\<close> is in the store with the
  handle \<^verbatim>\<open>c1\<close> and has no status record. \<^verbatim>\<open>halt\<close> kills the container and is then
  rejected with a \<^verbatim>\<open>TypeError\<close>; no status is set to \<^verbatim>\<open>NOT_TRAINING\<close>.
\<close>

theorem halt_without_status_record_counterexample:
  "lookup_project ''p1'' (db (world (demo_config (Some ''c1'') None))) =
     Some (demo_project (Some ''c1'')) \<and>
   fst (halt docker_ok ''p1'' (demo_config (Some ''c1'') None)) = Inl TypeError \<and>
   status (snd (halt docker_ok ''p1'' (demo_config (Some ''c1'') None))) ''p1'' = None \<and>
   trace (snd (halt docker_ok ''p1'' (demo_config (Some ''c1'') None))) =
     [Call (RetrieveProject ''p1'') None, Call (KillContainer ''c1'') None]"
  by (simp add: halt_def run_defs demo_defs)

text \<open>
  C5, as amended. Let \<open>i\<close> be the id of a project in the store that has a status record.
  \<^verbatim>\<open>pauseTraining(i)\<close> is rejected with \<^verbatim>\<open>"training is already paused"\<close> when the status is
  \<^verbatim>\<open>PAUSED\<close>; otherwise it is rejected with \<^verbatim>\<open>"no trainjob found"\<close> when the training handle
  is \<^verbatim>\<open>null\<close>; neither rejection does anything but fetch the project. Whenever
  \<^verbatim>\<open>pauseTraining\<close> is rejected, for whatever reason, the status table is unchanged.
  Otherwise it pauses the container: when the runtime fails to, its error is the
  rejection; when it succeeds, the status becomes \<^verbatim>\<open>PAUSED\<close> and the call resolves.
\<close>

theorem pauseTraining_with_status_record:
  assumes "lookup_project i (db (world c)) = Some p"
    and "status c i = Some st"
  shows
    "(trainingStatus st = PAUSED \<longrightarrow>
        pauseTraining D i c =
          (Inl (Rejected ''training is already paused''),
           c\<lparr>trace := trace c @ [Call (RetrieveProject i) None]\<rparr>)) \<and>
     (trainingStatus st \<noteq> PAUSED \<and> train (containerIDs p) = None \<longrightarrow>
        pauseTraining D i c =
          (Inl (Rejected ''no trainjob found''),
           c\<lparr>trace := trace c @ [Call (RetrieveProject i) None]\<rparr>)) \<and>
     (\<forall>e. fst (pauseTraining D i c) = Inl e \<longrightarrow>
        status (snd (pauseTraining D i c)) = status c) \<and>
     (\<forall>h. trainingStatus st \<noteq> PAUSED \<and> train (containerIDs p) = Some h \<longrightarrow>
        (case Docker_pauseContainer D h (runtime (world c)) of
           (Inl e, x') \<Rightarrow>
             pauseTraining D i c =
               (Inl e,
                c\<lparr>world := (world c)\<lparr>runtime := x'\<rparr>,
                  trace := trace c @
                    [Call (RetrieveProject i) None, Call (PauseContainer h) (Some e)]\<rparr>)
         | (Inr _, x') \<Rightarrow>
             pauseTraining D i c =
               (Inr (),
                c\<lparr>status := (status c)(i \<mapsto> st\<lparr>trainingStatus := PAUSED\<rparr>),
                  world := (world c)\<lparr>runtime := x'\<rparr>,
                  trace := trace c @
                    [Call (RetrieveProject i) None, Call (PauseContainer h) None,
                     SetTrainingStatus i PAUSED]\<rparr>)))"
  using assms lookup_project_id [OF assms(1)]
  by (auto simp: pauseTraining_def run_defs split: prod.splits sum.splits option.splits)

theorem pauseTraining_with_status_record_witness:
  "lookup_project ''p1'' (db (world (demo_config (Some ''c1'') (Some TRAINING)))) =
     Some (demo_project (Some ''c1'')) \<and>
   status (demo_config (Some ''c1'') (Some TRAINING)) ''p1'' = Some (demo_status TRAINING) \<and>
   fst (pauseTraining docker_ok ''p1'' (demo_config (Some ''c1'') (Some TRAINING))) = Inr () \<and>
   status (snd (pauseTraining docker_ok ''p1'' (demo_config (Some ''c1'') (Some TRAINING)))) ''p1'' =
     Some (demo_status PAUSED) \<and>
   pauseTraining docker_ok ''p1'' (demo_config (Some ''c1'') (Some PAUSED)) =
     (Inl (Rejected ''training is already paused''),
      (demo_config (Some ''c1'') (Some PAUSED))\<lparr>trace := [Call (RetrieveProject ''p1'') None]\<rparr>) \<and>
   fst (pauseTraining docker_ok ''p1'' (demo_config None (Some NOT_TRAINING))) =
     Inl (Rejected ''no trainjob found'')"
  using pauseTraining_with_status_record [of "''p1''" "demo_config (Some ''c1'') (Some TRAINING)"
      "demo_project (Some ''c1'')" "demo_status TRAINING" docker_ok]
    pauseTraining_with_status_record [of "''p1''" "demo_config (Some ''c1'') (Some PAUSED)"
      "demo_project (Some ''c1'')" "demo_status PAUSED" docker_ok]
    pauseTraining_with_status_record [of "''p1''" "demo_config None (Some NOT_TRAINING)"
      "demo_project None" "demo_status NOT_TRAINING" docker_ok]
  by (simp add: demo_defs)

text \<open>
  C5 as stated, for every project id in the store, fails: \<^verbatim>\<open>p1\<close> is in the store with no
  handle and no status record, and \<^verbatim>\<open>pauseTraining\<close> is rejected with a \<^verbatim>\<open>TypeError\<close>, not
  with \<^verbatim>\<open>"no trainjob found"\<close>.
\<close>

theorem pauseTraining_without_status_record_counterexample:
  "lookup_project ''p1'' (db (world (demo_config None None))) = Some (demo_project None) \<and>
   train (containerIDs (demo_project None)) = None \<and>
   fst (pauseTraining docker_ok ''p1'' (demo_config None None)) = Inl TypeError \<and>
   fst (pauseTraining docker_ok ''p1'' (demo_config None None)) \<noteq>
     Inl (Rejected ''no trainjob found'')"
  by (simp add: pauseTraining_def run_defs demo_defs)

text \<open>
  C6, as amended. Let \<open>i\<close> be the id of a project in the store that has a status record.
  \<^verbatim>\<open>resumeTraining(i)\<close> is rejected with \<^verbatim>\<open>"training is not paused"\<close> when the status is
  not \<^verbatim>\<open>PAUSED\<close> (so also when it is \<^verbatim>\<open>NOT_TRAINING\<close>); otherwise it is rejected with
  \<^verbatim>\<open>"no trainjob found"\<close> when the training handle is \<^verbatim>\<open>null\<close>. Otherwise it resumes the
  container: when the runtime fails to, its error is the rejection; when it succeeds,
  the status becomes \<^verbatim>\<open>TRAINING\<close> and the call resolves.
\<close>

theorem resumeTraining_with_status_record:
  assumes "lookup_project i (db (world c)) = Some p"
    and "status c i = Some st"
  shows
    "(trainingStatus st \<noteq> PAUSED \<longrightarrow>
        resumeTraining D i c =
          (Inl (Rejected ''training is not paused''),
           c\<lparr>trace := trace c @ [Call (RetrieveProject i) None]\<rparr>)) \<and>
     (trainingStatus st = PAUSED \<and> train (containerIDs p) = None \<longrightarrow>
        resumeTraining D i c =
          (Inl (Rejected ''no trainjob found''),
           c\<lparr>trace := trace c @ [Call (RetrieveProject i) None]\<rparr>)) \<and>
     (\<forall>h. trainingStatus st = PAUSED \<and> train (containerIDs p) = Some h \<longrightarrow>
        (case Docker_resumeContainer D h (runtime (world c)) of
           (Inl e, x') \<Rightarrow>
             resumeTraining D i c =
               (Inl e,
                c\<lparr>world := (world c)\<lparr>runtime := x'\<rparr>,
                  trace := trace c @
                    [Call (RetrieveProject i) None, Call (ResumeContainer h) (Some e)]\<rparr>)
         | (Inr _, x') \<Rightarrow>
             resumeTraining D i c =
               (Inr (),
                c\<lparr>status := (status c)(i \<mapsto> st\<lparr>trainingStatus := TRAINING\<rparr>),
                  world := (world c)\<lparr>runtime := x'\<rparr>,
                  trace := trace c @
                    [Call (RetrieveProject i) None, Call (ResumeContainer h) None,
                     SetTrainingStatus i TRAINING]\<rparr>)))"
  using assms lookup_project_id [OF assms(1)]
  by (auto simp: resumeTraining_def run_defs split: prod.splits sum.splits option.splits)

theorem resumeTraining_with_status_record_witness:
  "lookup_project ''p1'' (db (world (demo_config (Some ''c1'') (Some PAUSED)))) =
     Some (demo_project (Some ''c1'')) \<and>
   status (demo_config (Some ''c1'') (Some PAUSED)) ''p1'' = Some (demo_status PAUSED) \<and>
   fst (resumeTraining docker_ok ''p1'' (demo_config (Some ''c1'') (Some PAUSED))) = Inr () \<and>
   status (snd (resumeTraining docker_ok ''p1'' (demo_config (Some ''c1'') (Some PAUSED)))) ''p1'' =
     Some (demo_status TRAINING) \<and>
   fst (resumeTraining docker_ok ''p1'' (demo_config None (Some NOT_TRAINING))) =
     Inl (Rejected ''training is not paused'')"
  using resumeTraining_with_status_record [of "''p1''" "demo_config (Some ''c1'') (Some PAUSED)"
      "demo_project (Some ''c1'')" "demo_status PAUSED" docker_ok]
    resumeTraining_with_status_record [of "''p1''" "demo_config None (Some NOT_TRAINING)"
      "demo_project None" "demo_status NOT_TRAINING" docker_ok]
  by (simp add: demo_defs)

text \<open>
  C6 as stated, for every project id in the store, fails: \<^verbatim>\<open>p1\<close> is in the store with the
  handle \<^verbatim>\<open>c1\<close> and has no status record. \<^verbatim>\<open>resumeTraining\<close> neither rejects with
  \<^verbatim>\<open>"training is not paused"\<close> nor resumes the container: it is rejected with a
  \<^verbatim>\<open>TypeError\<close> right after fetching the project.
\<close>

theorem resumeTraining_without_status_record_counterexample:
  "lookup_project ''p1'' (db (world (demo_config (Some ''c1'') None))) =
     Some (demo_project (Some ''c1'')) \<and>
   resumeTraining docker_ok ''p1'' (demo_config (Some ''c1'') None) =
     (Inl TypeError,
      (demo_config (Some ''c1'') None)\<lparr>trace := [Call (RetrieveProject ''p1'') None]\<rparr>)"
  by (simp add: resumeTraining_def run_defs demo_defs)

text \<open>
  C10 as stated, for every id with a project in the store and no entry in the status
  table, fails: the table is a plain object, so under an id that names a property every
  object inherits the lookup finds something. The project \<^verbatim>\<open>constructor\<close> is in the store
  with the handle \<^verbatim>\<open>c1\<close> and has no status record: \<^verbatim>\<open>pauseTraining\<close> pauses the container
  and resolves, \<^verbatim>\<open>resumeTraining\<close> is rejected with its own \<^verbatim>\<open>"training is not paused"\<close>, and
  \<^verbatim>\<open>halt\<close> kills the container and resolves. None of them throws, and the status table
  stays empty.
\<close>

theorem missing_status_record_counterexample:
  "lookup_project ''constructor'' (db (world inherited_config)) = Some inherited_project \<and>
   status inherited_config ''constructor'' = None \<and>
   fst (pauseTraining docker_ok ''constructor'' inherited_config) = Inr () \<and>
   trace (snd (pauseTraining docker_ok ''constructor'' inherited_config)) =
     [Call (RetrieveProject ''constructor'') None, Call (PauseContainer ''c1'') None,
      SetTrainingStatus ''constructor'' PAUSED] \<and>
   status (snd (pauseTraining docker_ok ''constructor'' inherited_config)) = Map.empty \<and>
   resumeTraining docker_ok ''constructor'' inherited_config =
     (Inl (Rejected ''training is not paused''),
      inherited_config\<lparr>trace := [Call (RetrieveProject ''constructor'') None]\<rparr>) \<and>
   fst (halt docker_ok ''constructor'' inherited_config) = Inr () \<and>
   trace (snd (halt docker_ok ''constructor'' inherited_config)) =
     [Call (RetrieveProject ''constructor'') None, Call (KillContainer ''c1'') None,
      SetTrainingStatus ''constructor'' NOT_TRAINING] \<and>
   status (snd (halt docker_ok ''constructor'' inherited_config)) = Map.empty"
  by (simp add: pauseTraining_def resumeTraining_def halt_def run_defs docker_ok_def
      inherited_config_def inherited_project_def lookup_project_def
      Object_prototype_functions_def no_fields_def)

text \<open>
  C10, as amended. Let \<open>i\<close> be the id of a project in the store. When \<open>i\<close> has no status
  record and \<^verbatim>\<open>this.status[i]\<close> finds nothing inherited either (\<open>i\<close> is not the name of a
  member function of \<^verbatim>\<open>Object.prototype\<close>, not \<^verbatim>\<open>__proto__\<close>, and not the name of a status
  field that the table inherits), \<^verbatim>\<open>pauseTraining(i)\<close> and \<^verbatim>\<open>resumeTraining(i)\<close> read the
  missing record before any of their checks, so both are rejected with a \<^verbatim>\<open>TypeError\<close>
  having done nothing but fetch the project, whatever the handle; and \<^verbatim>\<open>halt(i)\<close> with a
  handle present writes to the missing record after the kill, so it is rejected with a
  \<^verbatim>\<open>TypeError\<close> once the container is killed. With a status record the accesses are
  safe: each of the three ends in one of its own rejections or in what the runtime call
  returned.
\<close>

theorem missing_status_record:
  assumes "lookup_project i (db (world c)) = Some p"
  shows
    "(status c i = None \<and> i \<notin> set Object_prototype_functions \<and> i \<noteq> ''__proto__'' \<and>
      \<not> inherited_number c i \<longrightarrow>
        pauseTraining D i c =
          (Inl TypeError, c\<lparr>trace := trace c @ [Call (RetrieveProject i) None]\<rparr>) \<and>
        resumeTraining D i c =
          (Inl TypeError, c\<lparr>trace := trace c @ [Call (RetrieveProject i) None]\<rparr>) \<and>
        (\<forall>h x'. train (containerIDs p) = Some h \<and> h \<noteq> [] \<and>
           Docker_killContainer D h (runtime (world c)) = (Inr (), x') \<longrightarrow>
           halt D i c =
             (Inl TypeError,
              c\<lparr>world := (world c)\<lparr>runtime := x'\<rparr>,
                trace := trace c @
                  [Call (RetrieveProject i) None, Call (KillContainer h) None]\<rparr>))) \<and>
     (\<forall>st. status c i = Some st \<longrightarrow>
        fst (pauseTraining D i c) =
          (if trainingStatus st = PAUSED then Inl (Rejected ''training is already paused'')
           else case train (containerIDs p) of
                  None \<Rightarrow> Inl (Rejected ''no trainjob found'')
                | Some h \<Rightarrow> fst (Docker_pauseContainer D h (runtime (world c)))) \<and>
        fst (resumeTraining D i c) =
          (if trainingStatus st \<noteq> PAUSED then Inl (Rejected ''training is not paused'')
           else case train (containerIDs p) of
                  None \<Rightarrow> Inl (Rejected ''no trainjob found'')
                | Some h \<Rightarrow> fst (Docker_resumeContainer D h (runtime (world c)))) \<and>
        fst (halt D i c) =
          (case train (containerIDs p) of
             None \<Rightarrow> Inl (Rejected ''no trainjob found'')
           | Some h \<Rightarrow>
               if h = [] then Inl (Rejected ''no trainjob found'')
               else fst (Docker_killContainer D h (runtime (world c)))))"
proof -
  have pid: "project_id p = i"
    using assms by (rule lookup_project_id)
  have missing: "status_lookup c i = Missing"
    if "status c i = None" "i \<notin> set Object_prototype_functions" "i \<noteq> ''__proto__''"
      "\<not> inherited_number c i"
    using that by (simp add: status_lookup_def)
  have absent: "pauseTraining D i c =
          (Inl TypeError, c\<lparr>trace := trace c @ [Call (RetrieveProject i) None]\<rparr>) \<and>
        resumeTraining D i c =
          (Inl TypeError, c\<lparr>trace := trace c @ [Call (RetrieveProject i) None]\<rparr>) \<and>
        (\<forall>h x'. train (containerIDs p) = Some h \<and> h \<noteq> [] \<and>
           Docker_killContainer D h (runtime (world c)) = (Inr (), x') \<longrightarrow>
           halt D i c =
             (Inl TypeError,
              c\<lparr>world := (world c)\<lparr>runtime := x'\<rparr>,
                trace := trace c @
                  [Call (RetrieveProject i) None, Call (KillContainer h) None]\<rparr>))"
    if "status_lookup c i = Missing"
    using that assms pid
    by (auto simp: pauseTraining_def resumeTraining_def halt_def step_defs)
  have present: "fst (pauseTraining D i c) =
          (if trainingStatus st = PAUSED then Inl (Rejected ''training is already paused'')
           else case train (containerIDs p) of
                  None \<Rightarrow> Inl (Rejected ''no trainjob found'')
                | Some h \<Rightarrow> fst (Docker_pauseContainer D h (runtime (world c)))) \<and>
        fst (resumeTraining D i c) =
          (if trainingStatus st \<noteq> PAUSED then Inl (Rejected ''training is not paused'')
           else case train (containerIDs p) of
                  None \<Rightarrow> Inl (Rejected ''no trainjob found'')
                | Some h \<Rightarrow> fst (Docker_resumeContainer D h (runtime (world c)))) \<and>
        fst (halt D i c) =
          (case train (containerIDs p) of
             None \<Rightarrow> Inl (Rejected ''no trainjob found'')
           | Some h \<Rightarrow>
               if h = [] then Inl (Rejected ''no trainjob found'')
               else fst (Docker_killContainer D h (runtime (world c))))"
    if "status c i = Some st" for st
  proof -
    from that have "status_lookup c i = Record st"
      by (simp add: status_lookup_Record)
    with assms pid show ?thesis
      by (auto simp: pauseTraining_def resumeTraining_def halt_def step_defs
          split: prod.splits sum.splits option.splits)
  qed
  from missing absent present show ?thesis
    by blast
qed

theorem missing_status_record_witness:
  "lookup_project ''p1'' (db (world (demo_config (Some ''c1'') None))) =
     Some (demo_project (Some ''c1'')) \<and>
   status (demo_config (Some ''c1'') None) ''p1'' = None \<and>
   ''p1'' \<notin> set Object_prototype_functions \<and>
   \<not> inherited_number (demo_config (Some ''c1'') None) ''p1'' \<and>
   fst (pauseTraining docker_ok ''p1'' (demo_config (Some ''c1'') None)) = Inl TypeError \<and>
   fst (resumeTraining docker_ok ''p1'' (demo_config (Some ''c1'') None)) = Inl TypeError \<and>
   halt docker_ok ''p1'' (demo_config (Some ''c1'') None) =
     (Inl TypeError,
      (demo_config (Some ''c1'') None)
        \<lparr>trace := [Call (RetrieveProject ''p1'') None, Call (KillContainer ''c1'') None]\<rparr>) \<and>
   status (demo_config (Some ''c1'') (Some TRAINING)) ''p1'' = Some (demo_status TRAINING) \<and>
   fst (halt docker_ok ''p1'' (demo_config (Some ''c1'') (Some TRAINING))) = Inr ()"
  using missing_status_record [of "''p1''" "demo_config (Some ''c1'') None"
      "demo_project (Some ''c1'')" docker_ok]
    missing_status_record [of "''p1''" "demo_config (Some ''c1'') (Some TRAINING)"
      "demo_project (Some ''c1'')" docker_ok]
  by (simp add: demo_defs)

section \<open>The handle and the status\<close>

text \<open>What the control operations can do to the store and the status table.\<close>

lemma pauseTraining_effect:
  "db (world (snd (pauseTraining D i c))) = db (world c) \<and>
   (status (snd (pauseTraining D i c)) = status c \<or>
    (\<exists>p st h. lookup_project i (db (world c)) = Some p \<and> status c i = Some st \<and>
       train (containerIDs p) = Some h \<and>
       status (snd (pauseTraining D i c)) = (status c)(i \<mapsto> st\<lparr>trainingStatus := PAUSED\<rparr>)))"
proof (cases "lookup_project i (db (world c))")
  case None
  then show ?thesis by (simp add: pauseTraining_def step_defs)
next
  case (Some p)
  then have pid: "project_id p = i" by (rule lookup_project_id)
  show ?thesis
  proof (cases "status_lookup c i")
    case (Record st)
    then have "status c i = Some st"
      by (simp add: status_lookup_Record)
    with Some pid Record show ?thesis
      by (auto simp: pauseTraining_def step_defs split: prod.splits sum.splits option.splits)
  qed (use Some pid in \<open>auto simp: pauseTraining_def step_defs
        split: prod.splits sum.splits option.splits\<close>)
qed

lemma resumeTraining_effect:
  "db (world (snd (resumeTraining D i c))) = db (world c) \<and>
   (status (snd (resumeTraining D i c)) = status c \<or>
    (\<exists>p st h. lookup_project i (db (world c)) = Some p \<and> status c i = Some st \<and>
       trainingStatus st = PAUSED \<and> train (containerIDs p) = Some h \<and>
       status (snd (resumeTraining D i c)) = (status c)(i \<mapsto> st\<lparr>trainingStatus := TRAINING\<rparr>)))"
proof (cases "lookup_project i (db (world c))")
  case None
  then show ?thesis by (simp add: resumeTraining_def step_defs)
next
  case (Some p)
  then have pid: "project_id p = i" by (rule lookup_project_id)
  show ?thesis
  proof (cases "status_lookup c i")
    case (Record st)
    then have "status c i = Some st"
      by (simp add: status_lookup_Record)
    with Some pid Record show ?thesis
      by (auto simp: resumeTraining_def step_defs split: prod.splits sum.splits option.splits)
  qed (use Some pid in \<open>auto simp: resumeTraining_def step_defs
        split: prod.splits sum.splits option.splits\<close>)
qed

lemma halt_rejected_effect:
  assumes "fst (halt D i c) = Inl e"
  shows "db (world (snd (halt D i c))) = db (world c) \<and> status (snd (halt D i c)) = status c"
proof (cases "lookup_project i (db (world c))")
  case None
  then show ?thesis by (simp add: halt_def step_defs)
next
  case (Some p)
  then have pid: "project_id p = i" by (rule lookup_project_id)
  show ?thesis
    using assms Some pid
    by (cases "status_lookup c i")
      (auto simp: halt_def step_defs split: prod.splits sum.splits option.splits if_splits)
qed

text \<open>
  A run of \<^verbatim>\<open>start\<close> that resolves went through every step of the method and every
  step resolved: the status record of the project, if it has one, ends as
  \<^verbatim>\<open>NOT_TRAINING\<close> at epoch 0, and the store holds the project with its handle cleared.
\<close>

lemma start_resolved:
  assumes "start T P c = (Inr v, c')"
  obtains p where "lookup_project (ref_id P) (db (world c)) = Some p"
    and "status c' (ref_id P) =
       map_option (\<lambda>_. \<lparr>trainingStatus = NOT_TRAINING, currentEpoch = 0,
           lastEpoch = epochs (hyperparameters p)\<rparr>) (status c (ref_id P))"
    and "lookup_project (ref_id P) (db (world c')) =
       Some (p\<lparr>containerIDs := (containerIDs p)\<lparr>train := None\<rparr>\<rparr>)"
proof -
  from assms obtain p c1 where found: "retrieveProject (ref_id P) c = (Inr p, c1)"
    unfolding start_def by (elim await_resolvedE)
  then have look: "lookup_project (ref_id P) (db (world c)) = Some p"
    by (simp add: retrieveProject_resolved)
  have pid: "project_id p = ref_id P"
    using look by (rule lookup_project_id)
  have stored: "lookup_project (ref_id P)
      (store_project (p\<lparr>containerIDs := (containerIDs p)\<lparr>train := None\<rparr>\<rparr>) ps) =
      Some (p\<lparr>containerIDs := (containerIDs p)\<lparr>train := None\<rparr>\<rparr>)" for ps
    using lookup_store_project [of "p\<lparr>containerIDs := (containerIDs p)\<lparr>train := None\<rparr>\<rparr>" ps] pid
    by simp
  have "status c' (ref_id P) =
       map_option (\<lambda>_. \<lparr>trainingStatus = NOT_TRAINING, currentEpoch = 0,
           lastEpoch = epochs (hyperparameters p)\<rparr>) (status c (ref_id P)) \<and>
     lookup_project (ref_id P) (db (world c')) =
       Some (p\<lparr>containerIDs := (containerIDs p)\<lparr>train := None\<rparr>\<rparr>)"
    using assms unfolding start_def Let_def
    apply (elim await_resolvedE)
    apply (drule resolved)+
    apply (elim conjE)
    using look pid stored
    apply simp
    apply (cases "status c (ref_id P)")
     apply simp
    subgoal for a by (cases a) simp
    done
  with look that show thesis by blast
qed

lemma train_invariant_cong:
  "train_invariant c j \<Longrightarrow> db (world c') = db (world c) \<Longrightarrow> status c' = status c \<Longrightarrow>
   train_invariant c' j"
  by (auto simp: train_invariant_def split: option.splits)

lemma train_invariant_status_upd:
  assumes "train_invariant c j"
    and "db (world c') = db (world c)"
    and "lookup_project i (db (world c)) = Some p"
    and "train (containerIDs p) = Some h"
    and "status c' = (status c)(i \<mapsto> st)"
    and "trainingStatus st = TRAINING \<or> trainingStatus st = PAUSED"
  shows "train_invariant c' j"
proof (cases "j = i")
  case True
  with assms(2-6) show ?thesis by (auto simp: train_invariant_def split: option.splits)
next
  case False
  with assms(1,2,5) show ?thesis by (auto simp: train_invariant_def split: option.splits)
qed

text \<open>
  C1, as amended. For every project that has a status record, \<^verbatim>\<open>pauseTraining\<close> and
  \<^verbatim>\<open>resumeTraining\<close> preserve the invariant that \<^verbatim>\<open>containerIDs.train\<close> is set exactly
  when the status is \<^verbatim>\<open>TRAINING\<close> or \<^verbatim>\<open>PAUSED\<close>, whether they resolve or are rejected, and
  they never change the store; a \<^verbatim>\<open>halt\<close> that is rejected changes neither the store nor
  the status table; and a \<^verbatim>\<open>start\<close> that resolves leaves its project with the handle
  cleared in the store and its status record, when it has one, \<^verbatim>\<open>NOT_TRAINING\<close>, so the
  invariant holds for it.
\<close>

theorem train_invariant_operations:
  assumes "train_invariant c j"
  shows
    "train_invariant (snd (pauseTraining D i c)) j \<and>
     db (world (snd (pauseTraining D i c))) = db (world c) \<and>
     train_invariant (snd (resumeTraining D i c)) j \<and>
     db (world (snd (resumeTraining D i c))) = db (world c) \<and>
     (\<forall>e. fst (halt D i c) = Inl e \<longrightarrow>
        train_invariant (snd (halt D i c)) j \<and>
        status (snd (halt D i c)) = status c \<and>
        db (world (snd (halt D i c))) = db (world c)) \<and>
     (\<forall>T P v c'. start T P c = (Inr v, c') \<longrightarrow>
        train_invariant c' (ref_id P) \<and>
        map_option trainingStatus (status c' (ref_id P)) =
          map_option (\<lambda>_. NOT_TRAINING) (status c (ref_id P)) \<and>
        map_option (\<lambda>p. train (containerIDs p)) (lookup_project (ref_id P) (db (world c'))) =
          Some None)"
proof -
  have pause: "train_invariant (snd (pauseTraining D i c)) j"
  proof -
    let ?c' = "snd (pauseTraining D i c)"
    have same: "db (world ?c') = db (world c)"
      using pauseTraining_effect [of D i c] by (rule conjunct1)
    have "status ?c' = status c \<or>
      (\<exists>p st h. lookup_project i (db (world c)) = Some p \<and> status c i = Some st \<and>
         train (containerIDs p) = Some h \<and>
         status ?c' = (status c)(i \<mapsto> st\<lparr>trainingStatus := PAUSED\<rparr>))"
      using pauseTraining_effect [of D i c] by (rule conjunct2)
    then show ?thesis
    proof
      assume "status ?c' = status c"
      with same assms show ?thesis by (blast intro: train_invariant_cong)
    next
      assume "\<exists>p st h. lookup_project i (db (world c)) = Some p \<and> status c i = Some st \<and>
         train (containerIDs p) = Some h \<and>
         status ?c' = (status c)(i \<mapsto> st\<lparr>trainingStatus := PAUSED\<rparr>)"
      then obtain p st h where "lookup_project i (db (world c)) = Some p"
        and "train (containerIDs p) = Some h"
        and "status ?c' = (status c)(i \<mapsto> st\<lparr>trainingStatus := PAUSED\<rparr>)"
        by blast
      then show ?thesis
        using train_invariant_status_upd [OF assms same, of i p h "st\<lparr>trainingStatus := PAUSED\<rparr>"]
        by simp
    qed
  qed
  have resume: "train_invariant (snd (resumeTraining D i c)) j"
  proof -
    let ?c' = "snd (resumeTraining D i c)"
    have same: "db (world ?c') = db (world c)"
      using resumeTraining_effect [of D i c] by (rule conjunct1)
    have "status ?c' = status c \<or>
      (\<exists>p st h. lookup_project i (db (world c)) = Some p \<and> status c i = Some st \<and>
         trainingStatus st = PAUSED \<and> train (containerIDs p) = Some h \<and>
         status ?c' = (status c)(i \<mapsto> st\<lparr>trainingStatus := TRAINING\<rparr>))"
      using resumeTraining_effect [of D i c] by (rule conjunct2)
    then show ?thesis
    proof
      assume "status ?c' = status c"
      with same assms show ?thesis by (blast intro: train_invariant_cong)
    next
      assume "\<exists>p st h. lookup_project i (db (world c)) = Some p \<and> status c i = Some st \<and>
         trainingStatus st = PAUSED \<and> train (containerIDs p) = Some h \<and>
         status ?c' = (status c)(i \<mapsto> st\<lparr>trainingStatus := TRAINING\<rparr>)"
      then obtain p st h where "lookup_project i (db (world c)) = Some p"
        and "train (containerIDs p) = Some h"
        and "status ?c' = (status c)(i \<mapsto> st\<lparr>trainingStatus := TRAINING\<rparr>)"
        by blast
      then show ?thesis
        using train_invariant_status_upd [OF assms same, of i p h "st\<lparr>trainingStatus := TRAINING\<rparr>"]
        by simp
    qed
  qed
  have halted: "fst (halt D i c) = Inl e \<longrightarrow>
        train_invariant (snd (halt D i c)) j \<and>
        status (snd (halt D i c)) = status c \<and>
        db (world (snd (halt D i c))) = db (world c)" for e
    using halt_rejected_effect [of D i c e] assms by (blast intro: train_invariant_cong)
  have started: "start T P c = (Inr v, c') \<longrightarrow>
        train_invariant c' (ref_id P) \<and>
        map_option trainingStatus (status c' (ref_id P)) =
          map_option (\<lambda>_. NOT_TRAINING) (status c (ref_id P)) \<and>
        map_option (\<lambda>p. train (containerIDs p)) (lookup_project (ref_id P) (db (world c'))) =
          Some None" for T :: "'a Trainer" and P v c'
  proof
    assume "start T P c = (Inr v, c')"
    then obtain p where
      "status c' (ref_id P) =
         map_option (\<lambda>_. \<lparr>trainingStatus = NOT_TRAINING, currentEpoch = 0,
             lastEpoch = epochs (hyperparameters p)\<rparr>) (status c (ref_id P))"
      "lookup_project (ref_id P) (db (world c')) =
         Some (p\<lparr>containerIDs := (containerIDs p)\<lparr>train := None\<rparr>\<rparr>)"
      by (rule start_resolved)
    then show "train_invariant c' (ref_id P) \<and>
        map_option trainingStatus (status c' (ref_id P)) =
          map_option (\<lambda>_. NOT_TRAINING) (status c (ref_id P)) \<and>
        map_option (\<lambda>p. train (containerIDs p)) (lookup_project (ref_id P) (db (world c'))) =
          Some None"
      by (simp add: train_invariant_def option.map_comp comp_def split: option.splits)
  qed
  have dbs: "db (world (snd (pauseTraining D i c))) = db (world c)"
    "db (world (snd (resumeTraining D i c))) = db (world c)"
    using pauseTraining_effect [of D i c] resumeTraining_effect [of D i c] by blast+
  from halted have h: "\<forall>e. fst (halt D i c) = Inl e \<longrightarrow>
        train_invariant (snd (halt D i c)) j \<and>
        status (snd (halt D i c)) = status c \<and>
        db (world (snd (halt D i c))) = db (world c)" ..
  from started have s: "\<forall>(T :: 'a Trainer) P v c'. start T P c = (Inr v, c') \<longrightarrow>
        train_invariant c' (ref_id P) \<and>
        map_option trainingStatus (status c' (ref_id P)) =
          map_option (\<lambda>_. NOT_TRAINING) (status c (ref_id P)) \<and>
        map_option (\<lambda>p. train (containerIDs p)) (lookup_project (ref_id P) (db (world c'))) =
          Some None" by blast
  show ?thesis
    by (intro conjI pause resume dbs h s)
qed

theorem train_invariant_operations_witness:
  "train_invariant (demo_config (Some ''c1'') (Some TRAINING)) ''p1'' \<and>
   fst (pauseTraining docker_ok ''p1'' (demo_config (Some ''c1'') (Some TRAINING))) = Inr () \<and>
   train_invariant (snd (pauseTraining docker_ok ''p1'' (demo_config (Some ''c1'') (Some TRAINING)))) ''p1''"
proof -
  have inv: "train_invariant (demo_config (Some ''c1'') (Some TRAINING)) ''p1''"
    by (simp add: train_invariant_def demo_defs)
  have "fst (pauseTraining docker_ok ''p1'' (demo_config (Some ''c1'') (Some TRAINING))) = Inr ()"
    by (simp add: pauseTraining_def run_defs demo_defs)
  with inv train_invariant_operations [OF inv, of docker_ok "''p1''"] show ?thesis
    by simp
qed

text \<open>
  C1 as stated fails, twice. \<^verbatim>\<open>p1\<close> is training in container \<^verbatim>\<open>c1\<close> and the invariant
  holds: \<^verbatim>\<open>halt\<close> resolves, the status is \<^verbatim>\<open>NOT_TRAINING\<close>, and the store still holds the
  handle, which \<^verbatim>\<open>halt\<close> does not clear. And \<^verbatim>\<open>p1\<close> is idle without a handle and the
  invariant holds: \<^verbatim>\<open>start\<close> is rejected because the training step fails, nothing is
  rolled back, and the status stays \<^verbatim>\<open>TRAINING\<close> with no handle in the store.
\<close>

theorem train_invariant_counterexample:
  "train_invariant (demo_config (Some ''c1'') (Some TRAINING)) ''p1'' \<and>
   fst (halt docker_ok ''p1'' (demo_config (Some ''c1'') (Some TRAINING))) = Inr () \<and>
   \<not> train_invariant (snd (halt docker_ok ''p1'' (demo_config (Some ''c1'') (Some TRAINING)))) ''p1'' \<and>
   train_invariant (demo_config None (Some NOT_TRAINING)) ''p1'' \<and>
   fst (start trainer_failing \<lparr>ref_id = ''p1''\<rparr> (demo_config None (Some NOT_TRAINING))) =
     Inl (Failure ''training container failed'') \<and>
   \<not> train_invariant
       (snd (start trainer_failing \<lparr>ref_id = ''p1''\<rparr> (demo_config None (Some NOT_TRAINING)))) ''p1''"
proof -
  have halted: "train_invariant (demo_config (Some ''c1'') (Some TRAINING)) ''p1'' \<and>
      fst (halt docker_ok ''p1'' (demo_config (Some ''c1'') (Some TRAINING))) = Inr () \<and>
      \<not> train_invariant
          (snd (halt docker_ok ''p1'' (demo_config (Some ''c1'') (Some TRAINING)))) ''p1''"
    by (simp add: train_invariant_def halt_def run_defs demo_defs)
  have idle: "train_invariant (demo_config None (Some NOT_TRAINING)) ''p1''"
    by (simp add: train_invariant_def demo_defs)
  have failed: "fst (start trainer_failing \<lparr>ref_id = ''p1''\<rparr>
        (demo_config None (Some NOT_TRAINING))) = Inl (Failure ''training container failed'') \<and>
      \<not> train_invariant
          (snd (start trainer_failing \<lparr>ref_id = ''p1''\<rparr>
             (demo_config None (Some NOT_TRAINING)))) ''p1''"
    by (simp add: train_invariant_def start_def run_defs invoke_def updateStep_def
        updateLastStep_def pushProject_def trainer_failing_def trainer_ok_def demo_defs Let_def)
  from halted idle failed show ?thesis by simp
qed

section \<open>Checkpoint polling\<close>

text \<open>What one poll does to the status table and to the world.\<close>

lemma updateStep_status:
  "status (snd (updateStep i n c)) =
     (status c)(i := map_option (currentEpoch_update (\<lambda>_. n)) (status c i))"
  by (auto simp: updateStep_def status_lookup_def split: option.splits slot.splits)

lemma updateCheckpoints_status:
  "status (snd (updateCheckpoints T i c)) =
     (case fst (Trainer_updateCheckpoints T i (world c)) of
        Inl e \<Rightarrow> status c
      | Inr None \<Rightarrow> status c
      | Inr (Some n) \<Rightarrow>
          if n \<noteq> 0
          then (status c)(i := map_option (currentEpoch_update (\<lambda>_. n)) (status c i))
          else status c)"
proof (cases "Trainer_updateCheckpoints T i (world c)")
  case (Pair r w')
  show ?thesis
  proof (cases r)
    case (Inl e)
    with Pair show ?thesis
      by (simp add: updateCheckpoints_def await_invoke)
  next
    case (Inr s)
    show ?thesis
    proof (cases s)
      case None
      with Pair Inr show ?thesis
        by (simp add: updateCheckpoints_def await_invoke resolve_def)
    next
      case (Some n)
      have step: "status (snd (await (updateStep i n) resolve c0)) =
          status (snd (updateStep i n c0))" for c0 :: "'a config"
        by (cases "updateStep i n c0") (auto simp: await_def resolve_def split: sum.splits)
      from Pair Inr Some show ?thesis
        by (simp add: updateCheckpoints_def await_invoke resolve_def step updateStep_status)
    qed
  qed
qed

text \<open>
  C8. Call \<^verbatim>\<open>updateCheckpoints(i)\<close> twice in a row. If nothing new was completed in
  between, that is, the trainer's second report is what its first report was, or it
  reports no epoch, or it fails, then the second call leaves the whole status
  table, and so \<^verbatim>\<open>currentEpoch\<close>, as the first call left it.
\<close>

theorem updateCheckpoints_idempotent:
  assumes "c1 = snd (updateCheckpoints T i c)"
    and "c2 = snd (updateCheckpoints T i c1)"
    and "fst (Trainer_updateCheckpoints T i (world c1)) =
           fst (Trainer_updateCheckpoints T i (world c)) \<or>
         (case fst (Trainer_updateCheckpoints T i (world c1)) of
            Inl e \<Rightarrow> True
          | Inr s \<Rightarrow> s = None \<or> s = Some 0)"
  shows "status c2 = status c1"
proof -
  let ?r0 = "fst (Trainer_updateCheckpoints T i (world c))"
  let ?r1 = "fst (Trainer_updateCheckpoints T i (world c1))"
  have one: "status c1 =
     (case ?r0 of
        Inl e \<Rightarrow> status c
      | Inr None \<Rightarrow> status c
      | Inr (Some n) \<Rightarrow>
          if n \<noteq> 0
          then (status c)(i := map_option (currentEpoch_update (\<lambda>_. n)) (status c i))
          else status c)"
    unfolding assms(1) by (rule updateCheckpoints_status)
  have two: "status c2 =
     (case ?r1 of
        Inl e \<Rightarrow> status c1
      | Inr None \<Rightarrow> status c1
      | Inr (Some n) \<Rightarrow>
          if n \<noteq> 0
          then (status c1)(i := map_option (currentEpoch_update (\<lambda>_. n)) (status c1 i))
          else status c1)"
    unfolding assms(2) by (rule updateCheckpoints_status)
  show ?thesis
  proof (cases ?r1)
    case (Inl e)
    with two show ?thesis by simp
  next
    case (Inr s)
    show ?thesis
    proof (cases s)
      case None
      with two Inr show ?thesis by simp
    next
      case (Some n)
      show ?thesis
      proof (cases "n = 0")
        case True
        with two Inr Some show ?thesis by simp
      next
        case False
        with assms(3) Inr Some have same: "?r0 = Inr (Some n)"
          by simp
        from one same False have first: "status c1 =
            (status c)(i := map_option (currentEpoch_update (\<lambda>_. n)) (status c i))"
          by simp
        from two Inr Some False have "status c2 =
            (status c1)(i := map_option (currentEpoch_update (\<lambda>_. n)) (status c1 i))"
          by simp
        with first show ?thesis
          by (cases "status c i") (simp_all add: fun_eq_iff)
      qed
    qed
  qed
qed

theorem updateCheckpoints_idempotent_witness:
  "map_option currentEpoch
     (status (snd (updateCheckpoints trainer_ok ''p1'' (demo_config None (Some TRAINING)))) ''p1'') =
     Some 50 \<and>
   status (snd (updateCheckpoints trainer_ok ''p1''
             (snd (updateCheckpoints trainer_ok ''p1'' (demo_config None (Some TRAINING)))))) =
   status (snd (updateCheckpoints trainer_ok ''p1'' (demo_config None (Some TRAINING))))"
proof -
  let ?c = "demo_config None (Some TRAINING)"
  let ?c1 = "snd (updateCheckpoints trainer_ok ''p1'' ?c)"
  let ?c2 = "snd (updateCheckpoints trainer_ok ''p1'' ?c1)"
  have same: "fst (Trainer_updateCheckpoints trainer_ok ''p1'' (world ?c1)) =
      fst (Trainer_updateCheckpoints trainer_ok ''p1'' (world ?c))"
    by (simp add: trainer_ok_def)
  have "map_option currentEpoch (status ?c1 ''p1'') = Some 50"
    by (simp add: updateCheckpoints_status trainer_ok_def demo_defs)
  moreover have "status ?c2 = status ?c1"
    using same by (intro updateCheckpoints_idempotent [of ?c1 trainer_ok "''p1''" ?c ?c2]) simp_all
  ultimately show ?thesis by simp
qed

section \<open>The test pipeline\<close>

text \<open>
  C9. Whatever the test pipeline's steps do and wherever it stops, \<^verbatim>\<open>test\<close> leaves the
  per-project training-status table exactly as it found it: no record is created,
  removed or changed.
\<close>

theorem test_leaves_status_table:
  "status (snd (test Te testName projectID exportID videoID c)) = status c"
  unfolding test_def
  by (intro await_status invoke_status retrieveProject_status resolve_status)

end
